theory Spec2Isabelle
  imports Complex_Main "HOL-Library.AList"
begin

section \<open>JavaScript values used by the servers\<close>

text \<open>
  Numbers are JavaScript numbers, that is IEEE doubles: \<open>NaN\<close>, the two infinities, and
  the finite doubles, each with its exact value. \<open>Num n\<close> is the double whose value is the
  integer \<open>n\<close>, \<open>Frac x\<close> the double whose value \<open>x\<close> is not whole. The two zeros
  are not told apart; no operation used here can tell them apart. \<open>NaN\<close> is what
  arithmetic on \<open>undefined\<close> produces, and every comparison with \<open>NaN\<close> is false.

  \<open>round_double\<close> is the rounding that follows every exact operation: to 53 significant
  bits, or to a multiple of \<open>2 ^ - 1074\<close> below \<open>2 ^ - 1022\<close>, a tie going to the
  neighbour with the even last bit, and to an infinity from \<open>2 ^ 1024\<close> on. Every integer
  up to \<open>2 ^ 53\<close> in magnitude is a double.
  Strings are \<open>char list\<close>; an optional string is a value that may be \<open>undefined\<close>.
\<close>

datatype jsnum = Num int | NaN | PosInf | NegInf | Frac rat

function bit_length :: "int \<Rightarrow> nat" where
  "bit_length n = (if n \<le> 0 then 0 else Suc (bit_length (n div 2)))"
  by pat_completeness auto
termination
  by (relation "measure nat") auto

declare bit_length.simps [simp del]

definition pow2 :: "int \<Rightarrow> rat" where
  "pow2 k = (if 0 \<le> k then 2 ^ nat k else 1 / 2 ^ nat (- k))"

definition floor_log2 :: "rat \<Rightarrow> int" where
  \<comment> \<open>for \<open>0 < a\<close>, the \<open>e\<close> with \<open>2 ^ e \<le> a < 2 ^ (e + 1)\<close>\<close>
  "floor_log2 a =
     (let k = int (bit_length (fst (quotient_of a))) - int (bit_length (snd (quotient_of a)))
      in if pow2 k \<le> a then k else k - 1)"

definition round_half_even :: "rat \<Rightarrow> int" where
  "round_half_even q =
     (let f = \<lfloor>q\<rfloor>; d = q - of_int f
      in if 1 / 2 < d \<or> (d = 1 / 2 \<and> odd f) then f + 1 else f)"

definition whole :: "rat \<Rightarrow> jsnum" where
  "whole y = (if of_int \<lfloor>y\<rfloor> = y then Num \<lfloor>y\<rfloor> else Frac y)"

definition round_double :: "rat \<Rightarrow> jsnum" where
  "round_double x =
     (if of_int \<lfloor>x\<rfloor> = x \<and> \<bar>\<lfloor>x\<rfloor>\<bar> \<le> 2 ^ 53 then Num \<lfloor>x\<rfloor>
      else
        (let a = \<bar>x\<bar>;
             e = max (floor_log2 a) (- 1022);
             u = pow2 (e - 52);
             y = of_int (round_half_even (a / u)) * u
         in if pow2 1024 \<le> y then (if x < 0 then NegInf else PosInf)
            else whole (if x < 0 then - y else y)))"

definition to_double :: "int \<Rightarrow> jsnum" where
  "to_double n = round_double (of_int n)"

fun js_add :: "jsnum \<Rightarrow> jsnum \<Rightarrow> jsnum" where
  "js_add (Num a) (Num b) = to_double (a + b)"
| "js_add (Num a) (Frac y) = round_double (of_int a + y)"
| "js_add (Frac x) (Num b) = round_double (x + of_int b)"
| "js_add (Frac x) (Frac y) = round_double (x + y)"
| "js_add NaN _ = NaN"
| "js_add _ NaN = NaN"
| "js_add PosInf NegInf = NaN"
| "js_add NegInf PosInf = NaN"
| "js_add PosInf _ = PosInf"
| "js_add _ PosInf = PosInf"
| "js_add NegInf _ = NegInf"
| "js_add _ NegInf = NegInf"

text \<open>
  The only subtraction of the code is \<open>expires_at - expiryBuffer\<close>, and its result is only
  compared with the clock, a whole number below \<open>2 ^ 53\<close>. For that comparison the exact
  difference of two whole numbers and the rounded one give the same answer, so that
  difference is kept exact.
\<close>

fun js_sub :: "jsnum \<Rightarrow> jsnum \<Rightarrow> jsnum" where
  "js_sub (Num a) (Num b) = Num (a - b)"
| "js_sub (Num a) (Frac y) = round_double (of_int a - y)"
| "js_sub (Frac x) (Num b) = round_double (x - of_int b)"
| "js_sub (Frac x) (Frac y) = round_double (x - y)"
| "js_sub NaN _ = NaN"
| "js_sub _ NaN = NaN"
| "js_sub PosInf PosInf = NaN"
| "js_sub NegInf NegInf = NaN"
| "js_sub PosInf _ = PosInf"
| "js_sub _ PosInf = NegInf"
| "js_sub NegInf _ = NegInf"
| "js_sub _ NegInf = PosInf"

fun sign :: "jsnum \<Rightarrow> int option" where
  "sign (Num a) = Some (sgn a)"
| "sign (Frac x) = Some (if x < 0 then - 1 else if 0 < x then 1 else 0)"
| "sign NaN = None"
| "sign PosInf = Some 1"
| "sign NegInf = Some (- 1)"

fun js_mul :: "jsnum \<Rightarrow> jsnum \<Rightarrow> jsnum" where
  "js_mul (Num a) (Num b) = to_double (a * b)"
| "js_mul (Num a) (Frac y) = round_double (of_int a * y)"
| "js_mul (Frac x) (Num b) = round_double (x * of_int b)"
| "js_mul (Frac x) (Frac y) = round_double (x * y)"
| "js_mul x y =
     (case (sign x, sign y) of
        (Some s, Some t) \<Rightarrow> (if s * t = 0 then NaN else if s * t < 0 then NegInf else PosInf)
      | _ \<Rightarrow> NaN)"

fun js_ge :: "jsnum \<Rightarrow> jsnum \<Rightarrow> bool" where
  "js_ge (Num a) (Num b) = (b \<le> a)"
| "js_ge (Num a) (Frac y) = (y \<le> of_int a)"
| "js_ge (Frac x) (Num b) = (of_int b \<le> x)"
| "js_ge (Frac x) (Frac y) = (y \<le> x)"
| "js_ge NaN _ = False"
| "js_ge _ NaN = False"
| "js_ge PosInf _ = True"
| "js_ge _ NegInf = True"
| "js_ge _ _ = False"

definition to_number :: "jsnum option \<Rightarrow> jsnum" where
  \<comment> \<open>a numeric field of a response body; an absent one is \<open>undefined\<close> and counts as \<open>NaN\<close>\<close>
  "to_number v = (case v of None \<Rightarrow> NaN | Some x \<Rightarrow> x)"

definition truthy :: "string option \<Rightarrow> bool" where
  \<comment> \<open>\<open>undefined\<close> and the empty string are falsy, every other string is truthy\<close>
  "truthy v = (case v of None \<Rightarrow> False | Some s \<Rightarrow> s \<noteq> [])"

definition template :: "string option \<Rightarrow> string" where
  \<comment> \<open>a value inside a template literal or a \<open>URLSearchParams\<close> initialiser\<close>
  "template v = (case v of None \<Rightarrow> ''undefined'' | Some s \<Rightarrow> s)"

datatype error = Error string

fun message :: "error \<Rightarrow> string" where
  "message (Error m) = m"

section \<open>The OAuth2 token manager\<close>

text \<open>
  \<open>OAuthConfig\<close> is the interface of the source. The three token fields come from a
  response body that is never validated, so at run time they may be \<open>undefined\<close>, and
  \<open>expires_at\<close> may be \<open>NaN\<close>.
\<close>

record OAuthConfig =
  access_token :: "string option"
  refresh_token :: "string option"
  token_type :: "string option"
  expires_at :: jsnum
  client_id :: string
  client_secret :: string
  reviewboard_url :: string

text \<open>
  The body of a token response (\<open>response.data\<close>), as far as the code reads it.
  A field that is absent reads as \<open>undefined\<close>.
\<close>

record token_data =
  td_access_token :: "string option"
  td_refresh_token :: "string option"
  td_token_type :: "string option"
  td_expires_in :: "jsnum option"

text \<open>
  What the remote end does with a POST: the transport fails, or a response with a status
  and a body arrives. The body \<open>None\<close> is a \<open>null\<close> body, on which a property
  read throws. \<open>axios.post\<close> rejects on a transport failure and on every status outside
  200..299.
\<close>

datatype http_result = NetworkError string | Response nat "token_data option"

definition digit_char :: "nat \<Rightarrow> char" where
  "digit_char d = ''0123456789'' ! d"

fun show_nat :: "nat \<Rightarrow> string" where
  "show_nat n = (if n < 10 then [digit_char n] else show_nat (n div 10) @ [digit_char (n mod 10)])"

declare show_nat.simps [simp del]

definition show_int :: "int \<Rightarrow> string" where
  "show_int i = (if i < 0 then CHR ''-'' # show_nat (nat (- i)) else show_nat (nat i))"

text \<open>
  A number inside a template literal, \<open>Number::toString\<close>: the shortest run of
  decimal digits that still reads back as the same double (of two equally short ones the
  nearer, then the even one), written out in full up to \<open>1e21\<close> and down to \<open>1e-6\<close>
  and with an exponent otherwise. A whole number up to \<open>2 ^ 53\<close> is its own digits.
\<close>

definition pow10 :: "int \<Rightarrow> rat" where
  "pow10 k = (if 0 \<le> k then 10 ^ nat k else 1 / 10 ^ nat (- k))"

fun lead_zeros :: "nat \<Rightarrow> rat \<Rightarrow> nat" where
  "lead_zeros 0 a = 0"
| "lead_zeros (Suc fuel) a = (if 1 \<le> a * 10 then 0 else Suc (lead_zeros fuel (a * 10)))"

definition decimal_point :: "rat \<Rightarrow> int" where
  \<comment> \<open>for \<open>0 < a\<close>, the \<open>n\<close> with \<open>10 ^ (n - 1) \<le> a < 10 ^ n\<close>; the smallest double is
      above \<open>10 ^ - 324\<close>\<close>
  "decimal_point a =
     (if 1 \<le> a then int (length (show_nat (nat \<lfloor>a\<rfloor>))) else - int (lead_zeros 400 a))"

definition nearer :: "rat \<Rightarrow> rat \<Rightarrow> int \<Rightarrow> int \<Rightarrow> int" where
  "nearer a scale s0 s1 =
     (let d0 = a - of_int s0 / scale; d1 = of_int s1 / scale - a
      in if d0 < d1 \<or> (d0 = d1 \<and> even s0) then s0 else s1)"

fun shortest :: "nat \<Rightarrow> nat \<Rightarrow> rat \<Rightarrow> int \<Rightarrow> nat \<times> int" where
  \<comment> \<open>the digits, tried with \<open>k = 1, 2, ...\<close> of them; 17 digits always suffice\<close>
  "shortest 0 k a n = (k, \<lfloor>a * pow10 (int k - n)\<rfloor>)"
| "shortest (Suc fuel) k a n =
     (let scale = pow10 (int k - n);
          s0 = \<lfloor>a * scale\<rfloor>;
          s1 = s0 + 1;
          ok0 = (round_double (of_int s0 / scale) = round_double a);
          ok1 = (round_double (of_int s1 / scale) = round_double a)
      in if ok0 \<and> ok1 then (k, nearer a scale s0 s1)
         else if ok0 then (k, s0)
         else if ok1 then (k, s1)
         else shortest fuel (Suc k) a n)"

definition show_positive :: "rat \<Rightarrow> string" where
  "show_positive a =
     (let n0 = decimal_point a;
          (k, s) = shortest 17 1 a n0;
          n = (if s = 10 ^ k then n0 + 1 else n0);
          d = (if s = 10 ^ k then show_nat (nat (s div 10)) else show_nat (nat s))
      in if int k \<le> n \<and> n \<le> 21 then d @ replicate (nat (n - int k)) CHR ''0''
         else if 0 < n \<and> n \<le> 21 then take (nat n) d @ ''.'' @ drop (nat n) d
         else if - 6 < n \<and> n \<le> 0 then ''0.'' @ replicate (nat (- n)) CHR ''0'' @ d
         else (if k = 1 then d else take 1 d @ ''.'' @ drop 1 d) @ ''e'' @
              (if n - 1 < 0 then ''-'' else ''+'') @ show_nat (nat \<bar>n - 1\<bar>))"

definition show_finite :: "rat \<Rightarrow> string" where
  "show_finite x =
     (if x = 0 then ''0''
      else if x < 0 then CHR ''-'' # show_positive (- x)
      else show_positive x)"

definition show_num :: "jsnum \<Rightarrow> string" where
  "show_num n =
     (case n of
        NaN \<Rightarrow> ''NaN''
      | PosInf \<Rightarrow> ''Infinity''
      | NegInf \<Rightarrow> ''-Infinity''
      | Num i \<Rightarrow> (if \<bar>i\<bar> \<le> 2 ^ 53 then show_int i else show_finite (of_int i))
      | Frac x \<Rightarrow> show_finite x)"

fun axios_post :: "http_result \<Rightarrow> error + token_data option" where
  "axios_post (NetworkError m) = Inl (Error m)"
| "axios_post (Response status body) =
     (if 200 \<le> status \<and> status < 300 then Inr body
      else Inl (Error (''Request failed with status code '' @ show_nat status)))"

text \<open>
  The file system holds, per path, what \<open>JSON.stringify\<close> wrote there, or something
  that \<open>JSON.parse\<close> rejects. The effects of a run are logged in order.
\<close>

datatype file_content = ConfigJson OAuthConfig | NotJson

datatype effect =
    HttpPost string "(string \<times> string) list"
  | FileRead string
  | FileWrite string OAuthConfig

record world =
  disk :: "string \<rightharpoonup> file_content"
  effects :: "effect list"

record manager =
  config :: OAuthConfig
  configPath :: string

definition json_reparse :: "OAuthConfig \<Rightarrow> OAuthConfig" where
  \<comment> \<open>\<open>JSON.stringify\<close> writes \<open>NaN\<close> and the infinities as \<open>null\<close>, which counts as
      0 in arithmetic\<close>
  "json_reparse c =
     c\<lparr>expires_at := (case expires_at c of Num n \<Rightarrow> Num n | Frac x \<Rightarrow> Frac x | _ \<Rightarrow> Num 0)\<rparr>"

definition loadConfig :: "string \<Rightarrow> world \<Rightarrow> (error + OAuthConfig) \<times> world" where
  "loadConfig path w =
     (case disk w path of
        None \<Rightarrow>
          (Inl (Error (''OAuth configuration file not found at '' @ path @ ''. '' @
                       ''Please run the OAuth setup script first: npm run oauth-setup'')), w)
      | Some content \<Rightarrow>
          (let w' = w\<lparr>effects := effects w @ [FileRead path]\<rparr>
           in case content of
                NotJson \<Rightarrow> (Inl (Error ''Unexpected token in JSON''), w')
              | ConfigJson c \<Rightarrow> (Inr (json_reparse c), w')))"

definition OAuth2TokenManager :: "string \<Rightarrow> world \<Rightarrow> (error + manager) \<times> world" where
  "OAuth2TokenManager path w =
     (case loadConfig path w of
        (Inl e, w') \<Rightarrow> (Inl e, w')
      | (Inr c, w') \<Rightarrow> (Inr \<lparr>config = c, configPath = path\<rparr>, w'))"

text \<open>\<open>saveConfig\<close>: \<open>fs.writeFileSync\<close> either writes the file or throws.\<close>

definition saveConfig :: "bool \<Rightarrow> manager \<Rightarrow> world \<Rightarrow> error + world" where
  "saveConfig write_ok m w =
     (if write_ok
      then Inr (w\<lparr>disk := (disk w)(configPath m \<mapsto> ConfigJson (config m)),
                  effects := effects w @ [FileWrite (configPath m) (config m)]\<rparr>)
      else Inl (Error ''EACCES: permission denied''))"

text \<open>
  What the environment does during one refresh: the outcome of the POST, the clock read
  after the response arrived, and whether the file can be written.
\<close>

record refresh_env =
  post_result :: http_result
  now_after :: int
  write_ok :: bool

definition refresh_failed :: error where
  "refresh_failed = Error
     ''Failed to refresh access token. You may need to run the OAuth setup again: npm run oauth-setup''"

definition refresh_request :: "manager \<Rightarrow> effect" where
  "refresh_request m = HttpPost (reviewboard_url (config m) @ ''/oauth2/token/'')
     [(''grant_type'', ''refresh_token''),
      (''refresh_token'', template (refresh_token (config m))),
      (''client_id'', client_id (config m)),
      (''client_secret'', client_secret (config m))]"

text \<open>
  \<open>refreshAccessToken\<close> runs up to \<open>await axios.post(...)\<close>, where it has sent the
  request (\<open>refresh_send\<close>), and continues when the POST has settled
  (\<open>refresh_settle\<close>). Every throw inside the \<open>try\<close> block ends in the same error.
\<close>

definition refresh_send :: "manager \<Rightarrow> world \<Rightarrow> world" where
  "refresh_send m w = w\<lparr>effects := effects w @ [refresh_request m]\<rparr>"

definition update_tokens :: "token_data \<Rightarrow> int \<Rightarrow> OAuthConfig \<Rightarrow> OAuthConfig" where
  "update_tokens td now c =
     (let c1 = c\<lparr>access_token := td_access_token td\<rparr>;
          c2 = (if truthy (td_refresh_token td)
                then c1\<lparr>refresh_token := td_refresh_token td\<rparr> else c1)
      in c2\<lparr>expires_at := js_add (Num now) (js_mul (to_number (td_expires_in td)) (Num 1000))\<rparr>)"

definition refresh_settle ::
  "refresh_env \<Rightarrow> manager \<Rightarrow> world \<Rightarrow> (error + unit) \<times> manager \<times> world" where
  "refresh_settle env m w =
     (case axios_post (post_result env) of
        Inl e \<Rightarrow> (Inl refresh_failed, m, w)
      | Inr None \<Rightarrow> (Inl refresh_failed, m, w)
      | Inr (Some td) \<Rightarrow>
          (let m' = m\<lparr>config := update_tokens td (now_after env) (config m)\<rparr>
           in case saveConfig (write_ok env) m' w of
                Inl e \<Rightarrow> (Inl refresh_failed, m', w)
              | Inr w' \<Rightarrow> (Inr (), m', w')))"

definition refreshAccessToken ::
  "refresh_env \<Rightarrow> manager \<Rightarrow> world \<Rightarrow> (error + unit) \<times> manager \<times> world" where
  "refreshAccessToken env m w = refresh_settle env m (refresh_send m w)"

definition expiryBuffer :: int where
  "expiryBuffer = 5 * 60 * 1000"

definition isExpired :: "int \<Rightarrow> manager \<Rightarrow> bool" where
  "isExpired now m = js_ge (Num now) (js_sub (expires_at (config m)) (Num expiryBuffer))"

text \<open>
  \<open>getValidAccessToken\<close> called at clock \<open>now\<close>, run to completion with no other
  task in between. The result is the token returned or the error thrown.
\<close>

definition getValidAccessToken ::
  "int \<Rightarrow> refresh_env \<Rightarrow> manager \<Rightarrow> world \<Rightarrow> (error + string option) \<times> manager \<times> world" where
  "getValidAccessToken now env m w =
     (if isExpired now m
      then (case refreshAccessToken env m w of
              (Inl e, m', w') \<Rightarrow> (Inl e, m', w')
            | (Inr u, m', w') \<Rightarrow> (Inr (access_token (config m')), m', w'))
      else (Inr (access_token (config m)), m, w))"

definition is_post :: "effect \<Rightarrow> bool" where
  "is_post e = (case e of HttpPost u b \<Rightarrow> True | _ \<Rightarrow> False)"

definition posts :: "world \<Rightarrow> effect list" where
  "posts w = filter is_post (effects w)"

text \<open>
  Calls that overlap. JavaScript runs each piece of code between two \<open>await\<close>s without
  interruption, and pieces of different calls may alternate. A call of
  \<open>getValidAccessToken\<close> is suspended at \<open>await axios.post(...)\<close> inside
  \<open>refreshAccessToken\<close>, then at \<open>await this.refreshAccessToken()\<close>, and then returns.
  All calls share the one manager object.
\<close>

datatype task =
    AwaitingPost
  | AwaitingRefresh "error + unit"
  | Returned "error + string option"

record runtime =
  rt_manager :: manager
  rt_world :: world
  rt_tasks :: "task list"

datatype occurrence =
    Invoke int
  | PostSettles nat refresh_env
  | Resume nat

fun occur :: "occurrence \<Rightarrow> runtime \<Rightarrow> runtime" where
  "occur (Invoke now) rt =
     (if isExpired now (rt_manager rt)
      then rt\<lparr>rt_world := refresh_send (rt_manager rt) (rt_world rt),
              rt_tasks := rt_tasks rt @ [AwaitingPost]\<rparr>
      else rt\<lparr>rt_tasks := rt_tasks rt @ [Returned (Inr (access_token (config (rt_manager rt))))]\<rparr>)"
| "occur (PostSettles i env) rt =
     (if i < length (rt_tasks rt) \<and> rt_tasks rt ! i = AwaitingPost
      then (case refresh_settle env (rt_manager rt) (rt_world rt) of
              (r, m', w') \<Rightarrow>
                rt\<lparr>rt_manager := m', rt_world := w',
                   rt_tasks := (rt_tasks rt)[i := AwaitingRefresh r]\<rparr>)
      else rt)"
| "occur (Resume i) rt =
     (if i < length (rt_tasks rt)
      then (case rt_tasks rt ! i of
              AwaitingRefresh (Inl e) \<Rightarrow> rt\<lparr>rt_tasks := (rt_tasks rt)[i := Returned (Inl e)]\<rparr>
            | AwaitingRefresh (Inr u) \<Rightarrow>
                rt\<lparr>rt_tasks := (rt_tasks rt)
                      [i := Returned (Inr (access_token (config (rt_manager rt))))]\<rparr>
            | _ \<Rightarrow> rt)
      else rt)"

definition run :: "occurrence list \<Rightarrow> runtime \<Rightarrow> runtime" where
  "run os rt = fold occur os rt"

section \<open>The ReviewBoard client and its two authentication modes\<close>

definition strip_trailing_slash :: "string \<Rightarrow> string" where
  \<comment> \<open>\<open>s.replace(/\/$/, "")\<close>\<close>
  "strip_trailing_slash s = (if s \<noteq> [] \<and> last s = CHR ''/'' then butlast s else s)"

record axios_instance =
  baseURL :: string
  default_headers :: "(string \<times> string) list"
  request_interceptor :: bool

record ReviewBoardClient =
  client :: axios_instance
  baseUrl :: string
  tokenManager :: "manager option"
  apiToken :: "string option"

datatype ctor_arg = BaseUrl string | TokenManager manager

definition new_ReviewBoardClient :: "ctor_arg \<Rightarrow> string option \<Rightarrow> error + ReviewBoardClient" where
  "new_ReviewBoardClient arg tok =
     (case arg of
        BaseUrl u \<Rightarrow>
          (if truthy tok
           then Inr \<lparr>client = \<lparr>baseURL = strip_trailing_slash u @ ''/api'',
                                 default_headers = [(''Accept'', ''application/json''),
                                                    (''Authorization'', ''token '' @ template tok)],
                                 request_interceptor = False\<rparr>,
                      baseUrl = strip_trailing_slash u,
                      tokenManager = None,
                      apiToken = tok\<rparr>
           else Inl (Error ''Invalid ReviewBoardClient constructor arguments''))
      | TokenManager m \<Rightarrow>
          Inr \<lparr>client = \<lparr>baseURL = strip_trailing_slash (reviewboard_url (config m)) @ ''/api'',
                           default_headers = [(''Accept'', ''application/json'')],
                           request_interceptor = True\<rparr>,
                baseUrl = strip_trailing_slash (reviewboard_url (config m)),
                tokenManager = Some m,
                apiToken = None\<rparr>)"

text \<open>
  The headers a request of this client leaves with: the instance's default headers, after
  the request interceptor has run when one is installed. The calls of the source add
  \<open>Accept\<close> or \<open>Content-Type\<close> headers only, which are left out here.
\<close>

definition request_headers ::
  "int \<Rightarrow> refresh_env \<Rightarrow> ReviewBoardClient \<Rightarrow> world \<Rightarrow>
     (error + (string \<times> string) list) \<times> ReviewBoardClient \<times> world" where
  "request_headers now env c w =
     (if request_interceptor (client c)
      then (case tokenManager c of
              None \<Rightarrow> (Inr (default_headers (client c)), c, w)
            | Some m \<Rightarrow>
                (case getValidAccessToken now env m w of
                   (Inl e, m', w') \<Rightarrow> (Inl e, c\<lparr>tokenManager := Some m'\<rparr>, w')
                 | (Inr t, m', w') \<Rightarrow>
                     (Inr (AList.update ''Authorization'' (''Bearer '' @ template t)
                             (default_headers (client c))),
                      c\<lparr>tokenManager := Some m'\<rparr>, w')))
      else (Inr (default_headers (client c)), c, w))"

text \<open>
  \<open>getClient\<close> with the module variable \<open>rbClient\<close> passed in and out. \<open>path\<close> is
  the resolved path of \<open>oauth-config.json\<close>.
\<close>

definition getClient ::
  "(string \<rightharpoonup> string) \<Rightarrow> string \<Rightarrow> ReviewBoardClient option \<Rightarrow> world \<Rightarrow>
     (error + ReviewBoardClient) \<times> ReviewBoardClient option \<times> world" where
  "getClient env path rbClient w =
     (case rbClient of
        Some c \<Rightarrow> (Inr c, rbClient, w)
      | None \<Rightarrow>
          (let apiToken = env ''REVIEWBOARD_TOKEN''; baseUrl = env ''REVIEWBOARD_URL''
           in if truthy apiToken \<and> truthy baseUrl
              then (case new_ReviewBoardClient (BaseUrl (template baseUrl)) apiToken of
                      Inl e \<Rightarrow> (Inl e, None, w)
                    | Inr c \<Rightarrow> (Inr c, Some c, w))
              else (case OAuth2TokenManager path w of
                      (Inl e, w') \<Rightarrow> (Inl e, None, w')
                    | (Inr m, w') \<Rightarrow>
                        (case new_ReviewBoardClient (TokenManager m) None of
                           Inl e \<Rightarrow> (Inl e, None, w')
                         | Inr c \<Rightarrow> (Inr c, Some c, w')))))"

section \<open>The authorization setup script\<close>

text \<open>
  A query parameter of the callback URL, as \<open>url.parse(req.url, true).query\<close> gives it:
  absent, one string, or an array of strings when the parameter is repeated. A request
  also names the connection it arrives on.
\<close>

datatype qval = QUndefined | QStr string | QArr "string list"

fun join :: "string \<Rightarrow> string list \<Rightarrow> string" where
  "join sep [] = []"
| "join sep [x] = x"
| "join sep (x # y # ys) = x @ sep @ join sep (y # ys)"

fun q_truthy :: "qval \<Rightarrow> bool" where
  "q_truthy QUndefined = False"
| "q_truthy (QStr s) = (s \<noteq> [])"
| "q_truthy (QArr xs) = True"

fun q_template :: "qval \<Rightarrow> string" where
  "q_template QUndefined = ''undefined''"
| "q_template (QStr s) = s"
| "q_template (QArr xs) = join '','' xs"

record request =
  connection :: nat
  pathname :: "string option"
  q_code :: qval
  q_state :: qval
  q_error :: qval

datatype settlement = Resolved qval qval | Rejected error

datatype setup_event =
    PresentUrl string "(string \<times> string) list"
  | Listen jsnum
  | Reply nat string
  | CloseServer
  | TokenPost string "(string \<times> string) list"
  | WriteConfig OAuthConfig
  | ReportFailure string
  | Exit nat

text \<open>
  The callback server: whether it accepts new connections, the connections it has
  accepted, the promise that \<open>startCallbackServer\<close> returned (settled at most once: a
  later \<open>resolve\<close> or \<open>reject\<close> does nothing), and what it has done so far.
\<close>

record listener =
  accepting :: bool
  connections :: "nat list"
  promise :: "settlement option"
  emitted :: "setup_event list"

definition settle :: "settlement \<Rightarrow> listener \<Rightarrow> listener" where
  "settle s l = l\<lparr>promise := (case promise l of None \<Rightarrow> Some s | Some old \<Rightarrow> Some old)\<rparr>"

definition reply :: "nat \<Rightarrow> string \<Rightarrow> listener \<Rightarrow> listener" where
  "reply status html l = l\<lparr>emitted := emitted l @ [Reply status html]\<rparr>"

definition close_server :: "listener \<Rightarrow> listener" where
  "close_server l = l\<lparr>accepting := False, emitted := emitted l @ [CloseServer]\<rparr>"

definition on_request :: "request \<Rightarrow> listener \<Rightarrow> listener" where
  "on_request req l =
     (if pathname req = Some ''/callback''
      then (if q_truthy (q_error req)
            then settle (Rejected (Error (''Authorization failed: '' @ q_template (q_error req))))
                   (close_server (reply 400
                      (''<html><body><h1>Authorization Failed</h1><p>Error: '' @
                       q_template (q_error req) @ ''</p></body></html>'') l))
            else if q_truthy (q_code req) \<and> q_truthy (q_state req)
            then settle (Resolved (q_code req) (q_state req))
                   (close_server (reply 200
                      (''<html><body><h1>Authorization Successful!</h1>'' @
                       ''<p>You can close this window and return to the terminal.</p></body></html>'') l))
            else settle (Rejected (Error ''Missing code or state parameter''))
                   (close_server (reply 400
                      (''<html><body><h1>Invalid Request</h1>'' @
                       ''<p>Missing code or state parameter.</p></body></html>'') l)))
      else l)"

text \<open>
  \<open>startCallbackServer\<close>: \<open>server.listen(port)\<close> binds the port, or the server emits
  \<open>error\<close> and the promise is rejected.
\<close>

definition startCallbackServer :: "jsnum \<Rightarrow> bool \<Rightarrow> listener" where
  "startCallbackServer port port_free =
     (if port_free
      then \<lparr>accepting = True, connections = [], promise = None, emitted = [Listen port]\<rparr>
      else \<lparr>accepting = False, connections = [],
             promise = Some (Rejected (Error ''listen EADDRINUSE: address already in use'')),
             emitted = [Listen port]\<rparr>)"

text \<open>
  Requests arrive one by one. \<open>server.close()\<close> makes the server refuse new connections
  and leaves the accepted ones open (the handler sends no \<open>Connection: close\<close>): a
  request on a connection accepted earlier reaches the handler also after the close, a
  request on a new connection only while the server accepts.
\<close>

definition deliver :: "request \<Rightarrow> listener \<Rightarrow> listener" where
  "deliver req l =
     (if connection req \<in> set (connections l) then on_request req l
      else if accepting l
      then on_request req (l\<lparr>connections := connections l @ [connection req]\<rparr>)
      else l)"

fun serve :: "request list \<Rightarrow> listener \<Rightarrow> listener" where
  "serve [] l = l"
| "serve (r # rs) l = serve rs (deliver r l)"

text \<open>\<open>parseInt\<close> with no radix argument: white space, a sign, \<open>0x\<close> for hexadecimal.\<close>

definition is_space :: "char \<Rightarrow> bool" where
  "is_space c = (c \<in> set [CHR '' '', CHR 0x09, CHR 0x0A, CHR 0x0B, CHR 0x0C, CHR 0x0D])"

definition digit_value :: "char \<Rightarrow> nat option" where
  "digit_value c =
     (let n = (of_char c :: nat)
      in if 48 \<le> n \<and> n \<le> 57 then Some (n - 48)
         else if 97 \<le> n \<and> n \<le> 122 then Some (n - 87)
         else if 65 \<le> n \<and> n \<le> 90 then Some (n - 55)
         else None)"

definition is_digit :: "nat \<Rightarrow> char \<Rightarrow> bool" where
  "is_digit radix c = (case digit_value c of None \<Rightarrow> False | Some d \<Rightarrow> d < radix)"

definition digits_value :: "nat \<Rightarrow> string \<Rightarrow> nat" where
  "digits_value radix ds =
     foldl (\<lambda>acc c. acc * radix + (case digit_value c of None \<Rightarrow> 0 | Some d \<Rightarrow> d)) 0 ds"

definition parseInt :: "string \<Rightarrow> jsnum" where
  "parseInt s =
     (let s1 = dropWhile is_space s;
          negative = (take 1 s1 = ''-'');
          s2 = (if take 1 s1 = ''-'' \<or> take 1 s1 = ''+'' then drop 1 s1 else s1);
          hex = (take 2 s2 = ''0x'' \<or> take 2 s2 = ''0X'');
          radix = (if hex then 16 else 10);
          s3 = (if hex then drop 2 s2 else s2);
          ds = takeWhile (is_digit radix) s3
      in if ds = [] then NaN
         else to_double (if negative then - int (digits_value radix ds)
                         else int (digits_value radix ds)))"

definition exchangeCodeForToken ::
  "string \<Rightarrow> string \<Rightarrow> string \<Rightarrow> qval \<Rightarrow> string \<Rightarrow> http_result \<Rightarrow>
     (error + token_data option) \<times> setup_event list" where
  "exchangeCodeForToken reviewboardUrl clientId clientSecret code redirectUri res =
     (case axios_post res of
        Inl e \<Rightarrow> Inl (Error (''Failed to exchange code for token: '' @ message e))
      | Inr d \<Rightarrow> Inr d,
      [TokenPost (reviewboardUrl @ ''/oauth2/token/'')
         [(''grant_type'', ''authorization_code''),
          (''code'', q_template code),
          (''redirect_uri'', redirectUri),
          (''client_id'', clientId),
          (''client_secret'', clientSecret)]])"

text \<open>
  Everything \<open>main\<close> takes from outside: the environment variables, the bytes of
  \<open>generateState\<close>, whether \<open>new URL(...)\<close> accepts the address, whether the port can
  be bound, the requests that reach the callback server, the outcome of the token POST,
  the clock and whether the file can be written.
\<close>

record setup_env =
  env_vars :: "string \<rightharpoonup> string"
  fresh_state :: string
  url_parses :: bool
  port_free :: bool
  incoming :: "request list"
  exchange_result :: http_result
  clock :: int
  can_write :: bool

datatype outcome = Completed | Exited nat | Crashed | Waiting

definition failed :: "string \<Rightarrow> setup_event list \<Rightarrow> outcome \<times> setup_event list" where
  \<comment> \<open>the \<open>catch\<close> block of \<open>main\<close>\<close>
  "failed msg evs = (Exited 1, evs @ [ReportFailure msg, Exit 1])"

definition finish ::
  "setup_env \<Rightarrow> string \<Rightarrow> string \<Rightarrow> string \<Rightarrow> token_data option \<Rightarrow> setup_event list \<Rightarrow>
     outcome \<times> setup_event list" where
  \<comment> \<open>\<open>main\<close> after the token exchange: compute \<open>expires_at\<close>, assemble and save the record\<close>
  "finish e reviewboardUrl clientId clientSecret tokenData evs =
     (case tokenData of
        None \<Rightarrow> failed ''Cannot read properties of null (reading 'expires_in')'' evs
      | Some td \<Rightarrow>
          (let expiresAt = js_add (Num (clock e)) (js_mul (to_number (td_expires_in td)) (Num 1000));
               cfg = \<lparr>access_token = td_access_token td,
                      refresh_token = td_refresh_token td,
                      token_type = td_token_type td,
                      expires_at = expiresAt,
                      client_id = clientId,
                      client_secret = clientSecret,
                      reviewboard_url = reviewboardUrl\<rparr>
           in if can_write e then (Completed, evs @ [WriteConfig cfg])
              else failed ''EACCES: permission denied'' evs))"

definition callbackPort :: "setup_env \<Rightarrow> jsnum" where
  \<comment> \<open>\<open>parseInt(process.env.OAUTH_CALLBACK_PORT || '3000')\<close>\<close>
  "callbackPort e = parseInt (if truthy (env_vars e ''OAUTH_CALLBACK_PORT'')
                              then template (env_vars e ''OAUTH_CALLBACK_PORT'')
                              else ''3000'')"

definition callback_listener :: "setup_env \<Rightarrow> listener" where
  \<comment> \<open>the callback server of this run, after the requests of this run have reached it;
      \<open>main\<close> lists what the server did before what it does itself after the callback\<close>
  "callback_listener e = serve (incoming e) (startCallbackServer (callbackPort e) (port_free e))"

definition main :: "setup_env \<Rightarrow> outcome \<times> setup_event list" where
  "main e =
     (let reviewboardUrl = env_vars e ''REVIEWBOARD_URL'';
          clientId = env_vars e ''REVIEWBOARD_CLIENT_ID'';
          clientSecret = env_vars e ''REVIEWBOARD_CLIENT_SECRET''
      in if \<not> truthy reviewboardUrl \<or> \<not> truthy clientId \<or> \<not> truthy clientSecret
         then (Exited 1, [Exit 1])
         else
           (let redirectUri = ''http://localhost:'' @ show_num (callbackPort e) @ ''/callback'';
                state = fresh_state e
            in if \<not> url_parses e then (Crashed, [])
               else
                 (let shown = [PresentUrl (template reviewboardUrl @ ''/oauth2/authorize/'')
                                 [(''client_id'', template clientId),
                                  (''redirect_uri'', redirectUri),
                                  (''response_type'', ''code''),
                                  (''state'', state),
                                  (''scope'', ''read write'')]];
                      evs = shown @ emitted (callback_listener e)
                  in case promise (callback_listener e) of
                       None \<Rightarrow> (Waiting, evs)
                     | Some (Rejected err) \<Rightarrow> failed (message err) evs
                     | Some (Resolved code returnedState) \<Rightarrow>
                         (if QStr state \<noteq> returnedState
                          then failed ''State mismatch - possible CSRF attack'' evs
                          else
                            (case exchangeCodeForToken (template reviewboardUrl) (template clientId)
                                    (template clientSecret) code redirectUri (exchange_result e) of
                               (Inl err, sent) \<Rightarrow> failed (message err) (evs @ sent)
                             | (Inr tokenData, sent) \<Rightarrow>
                                 finish e (template reviewboardUrl) (template clientId)
                                   (template clientSecret) tokenData (evs @ sent))))))"

section \<open>The Jira instance registry\<close>

text \<open>
  A JavaScript \<open>Map\<close> keeps its keys in insertion order, each key once: an association
  list read with \<open>map_of\<close> and written with \<open>AList.update\<close>.
  \<open>String.prototype.toLowerCase\<close> folds every cased character of Unicode; it is taken
  as the parameter \<open>toLowerCase\<close> of \<open>getClient\<close>, so that what is proved holds for
  whatever it does to a name.
\<close>

fun str_includes :: "string \<Rightarrow> string \<Rightarrow> bool" where
  "str_includes sub [] = (sub = [])"
| "str_includes sub (c # cs) = (take (length sub) (c # cs) = sub \<or> str_includes sub cs)"

fun strip_jira :: "string \<Rightarrow> string" where
  \<comment> \<open>\<open>s.replace(/\/jira.*$/, '')\<close>: \<open>.\<close> matches no line terminator\<close>
  "strip_jira [] = []"
| "strip_jira (c # cs) =
     (if take 5 (c # cs) = ''/jira'' \<and> (\<forall>d \<in> set (drop 5 (c # cs)). d \<noteq> CHR 0x0A \<and> d \<noteq> CHR 0x0D)
      then [] else c # strip_jira cs)"

record instance_config =
  inst_url :: string
  inst_email :: string
  inst_token :: string

record jira_axios =
  jira_baseURL :: string
  auth_username :: string
  auth_password :: string

record JiraClient =
  clients :: "(string \<times> jira_axios) list"
  instances :: "(string \<times> instance_config) list"

definition create_client :: "instance_config \<Rightarrow> jira_axios" where
  "create_client cfg =
     (let baseUrl0 = strip_trailing_slash (inst_url cfg);
          baseUrl = (if str_includes ''atlassian.net'' baseUrl0 then strip_jira baseUrl0 else baseUrl0);
          apiVersion = (if str_includes ''atlassian.net'' baseUrl then ''3'' else ''2'')
      in \<lparr>jira_baseURL = baseUrl @ ''/rest/api/'' @ apiVersion,
           auth_username = inst_email cfg,
           auth_password = inst_token cfg\<rparr>)"

definition jira_getClient ::
  "(string \<Rightarrow> string) \<Rightarrow> string \<Rightarrow> JiraClient \<Rightarrow> (error + jira_axios) \<times> JiraClient" where
  "jira_getClient toLowerCase instance jc =
     (let instanceKey = toLowerCase instance
      in case map_of (instances jc) instanceKey of
           None \<Rightarrow>
             (Inl (Error (''Unknown Jira instance: '' @ instance @ ''. Available instances: '' @
                          join '', '' (map fst (instances jc)))), jc)
         | Some cfg \<Rightarrow>
             (case map_of (clients jc) instanceKey of
                None \<Rightarrow>
                  (Inr (create_client cfg),
                   jc\<lparr>clients := AList.update instanceKey (create_client cfg) (clients jc)\<rparr>)
              | Some c \<Rightarrow> (Inr c, jc)))"

section \<open>Concrete data\<close>

definition held_config :: OAuthConfig where
  "held_config =
     \<lparr>access_token = Some ''AT1'', refresh_token = Some ''RT1'', token_type = Some ''Bearer'',
      expires_at = Num 1699999999000, client_id = ''cid'', client_secret = ''sec'',
      reviewboard_url = ''https://rb.example.com''\<rparr>"

definition held_manager :: manager where
  "held_manager = \<lparr>config = held_config, configPath = ''/srv/oauth-config.json''\<rparr>"

definition fresh_manager :: manager where
  "fresh_manager = held_manager\<lparr>config := held_config\<lparr>expires_at := Num 1700003600000\<rparr>\<rparr>"

definition held_world :: world where
  "held_world = \<lparr>disk = [''/srv/oauth-config.json'' \<mapsto> ConfigJson held_config], effects = []\<rparr>"

definition idle_runtime :: runtime where
  "idle_runtime = \<lparr>rt_manager = held_manager, rt_world = held_world, rt_tasks = []\<rparr>"

definition answers :: "http_result \<Rightarrow> refresh_env" where
  "answers res = \<lparr>post_result = res, now_after = 1700000000000, write_ok = True\<rparr>"

definition issued_AT2 :: token_data where
  "issued_AT2 = \<lparr>td_access_token = Some ''AT2'', td_refresh_token = None,
                  td_token_type = None, td_expires_in = Some (Num 3600)\<rparr>"

definition empty_body :: token_data where
  "empty_body = \<lparr>td_access_token = None, td_refresh_token = None,
                  td_token_type = None, td_expires_in = None\<rparr>"

definition favicon :: request where
  "favicon = \<lparr>connection = 1, pathname = Some ''/favicon.ico'', q_code = QUndefined, q_state = QUndefined,
               q_error = QUndefined\<rparr>"


definition granted :: request where
  "granted = \<lparr>connection = 2, pathname = Some ''/callback'', q_code = QStr ''c0de'', q_state = QStr ''5f2a'',
               q_error = QUndefined\<rparr>"

definition setup_run :: setup_env where
  "setup_run =
     \<lparr>env_vars = [''REVIEWBOARD_URL'' \<mapsto> ''https://rb.example.com'',
                  ''REVIEWBOARD_CLIENT_ID'' \<mapsto> ''cid'',
                  ''REVIEWBOARD_CLIENT_SECRET'' \<mapsto> ''sec''],
      fresh_state = ''5f2a'',
      url_parses = True,
      port_free = True,
      incoming = [favicon, granted],
      exchange_result = Response 200 (Some issued_AT2),
      clock = 1700000000000,
      can_write = True\<rparr>"

definition static_env :: "string \<rightharpoonup> string" where
  "static_env = [''REVIEWBOARD_TOKEN'' \<mapsto> ''s3cret'',
                 ''REVIEWBOARD_URL'' \<mapsto> ''https://rb.example.com/'']"

definition empty_token_env :: "string \<rightharpoonup> string" where
  "empty_token_env = [''REVIEWBOARD_TOKEN'' \<mapsto> [],
                      ''REVIEWBOARD_URL'' \<mapsto> ''https://rb.example.com/'']"

text \<open>
  \<open>toLowerCase\<close> on names of ASCII characters, for the concrete requests below.
\<close>

definition ascii_lower :: "string \<Rightarrow> string" where
  "ascii_lower s =
     map (\<lambda>c. case map_of (zip ''ABCDEFGHIJKLMNOPQRSTUVWXYZ'' ''abcdefghijklmnopqrstuvwxyz'') c of
                None \<Rightarrow> c
              | Some d \<Rightarrow> d) s"

definition two_instances :: JiraClient where
  "two_instances =
     \<lparr>clients = [],
      instances =
        [(''amd'', \<lparr>inst_url = ''https://jira.amd.example/'', inst_email = ''a@example.com'',
                    inst_token = ''t1''\<rparr>),
         (''ontrack'', \<lparr>inst_url = ''https://ontrack.atlassian.net/jira'',
                        inst_email = ''b@example.com'', inst_token = ''t2''\<rparr>)]\<rparr>"

section \<open>Properties of the token manager\<close>

lemma to_double_safe [simp]: "\<bar>n\<bar> \<le> 2 ^ 53 \<Longrightarrow> to_double n = Num n"
  by (simp add: to_double_def round_double_def)

lemma isExpired_iff: "expires_at (config m) = Num e \<Longrightarrow> isExpired now m = (e \<le> now + 300000)"
  by (auto simp: isExpired_def expiryBuffer_def)

lemma refresh_settle_posts: "posts (snd (snd (refresh_settle env m w))) = posts w"
  by (simp add: refresh_settle_def saveConfig_def posts_def is_post_def Let_def
      split: sum.splits option.splits)

lemma refresh_send_posts: "posts (refresh_send m w) = posts w @ [refresh_request m]"
  by (simp add: refresh_send_def posts_def is_post_def refresh_request_def)

lemma refreshAccessToken_posts:
  "posts (snd (snd (refreshAccessToken env m w))) = posts w @ [refresh_request m]"
  by (simp add: refreshAccessToken_def refresh_settle_posts refresh_send_posts)

lemma refreshAccessToken_success:
  assumes "post_result env = Response status (Some td)" "200 \<le> status" "status < 300" "write_ok env"
  shows "refreshAccessToken env m w =
     (Inr (), m\<lparr>config := update_tokens td (now_after env) (config m)\<rparr>,
      \<lparr>disk = (disk w)(configPath m \<mapsto>
           ConfigJson (update_tokens td (now_after env) (config m))),
         effects = effects w @ [refresh_request m,
           FileWrite (configPath m) (update_tokens td (now_after env) (config m))]\<rparr>)"
  using assms
  by (simp add: refreshAccessToken_def refresh_settle_def saveConfig_def refresh_send_def Let_def)

lemma refreshAccessToken_rejected:
  assumes "axios_post (post_result env) = Inl err \<or> axios_post (post_result env) = Inr None"
  shows "refreshAccessToken env m w = (Inl refresh_failed, m, refresh_send m w)"
  using assms by (auto simp: refreshAccessToken_def refresh_settle_def)

lemma getValidAccessToken_posts:
  "posts (snd (snd (getValidAccessToken now env m w))) =
     (if isExpired now m then posts w @ [refresh_request m] else posts w)"
  using refreshAccessToken_posts [of env m w]
  by (auto simp: getValidAccessToken_def split: prod.splits sum.splits)

text \<open>
  Claim C4. When the held \<open>expires_at\<close> is strictly after \<open>now\<close> plus five minutes,
  \<open>getValidAccessToken\<close> returns the held access token and leaves the manager and the
  world (the file and the log of requests, reads and writes) as they were. A second call
  in that state returns the same token, again without any effect.
\<close>

theorem valid_token_no_io:
  assumes "expires_at (config m) = Num e" and "now + 300000 < e"
  shows "getValidAccessToken now env m w = (Inr (access_token (config m)), m, w) \<and>
         (now2 + 300000 < e \<longrightarrow>
            getValidAccessToken now2 env2
              (fst (snd (getValidAccessToken now env m w)))
              (snd (snd (getValidAccessToken now env m w)))
            = (Inr (access_token (config m)), m, w))"
  using assms by (simp add: getValidAccessToken_def isExpired_iff)

theorem valid_token_no_io_witness:
  "expires_at (config fresh_manager) = Num 1700003600000 \<and>
   (1700000000000::int) + 300000 < 1700003600000 \<and>
   (1700000000001::int) + 300000 < 1700003600000 \<and>
   getValidAccessToken 1700000000000 (answers (NetworkError ''unused'')) fresh_manager held_world
     = (Inr (Some ''AT1''), fresh_manager, held_world) \<and>
   getValidAccessToken 1700000000001 (answers (NetworkError ''unused''))
      (fst (snd (getValidAccessToken 1700000000000 (answers (NetworkError ''unused''))
         fresh_manager held_world)))
      (snd (snd (getValidAccessToken 1700000000000 (answers (NetworkError ''unused''))
         fresh_manager held_world)))
     = (Inr (Some ''AT1''), fresh_manager, held_world)"
proof -
  have h1: "expires_at (config fresh_manager) = Num 1700003600000"
    by (simp add: fresh_manager_def)
  have h2: "(1700000000000::int) + 300000 < 1700003600000" by simp
  have h3: "(1700000000001::int) + 300000 < 1700003600000" by simp
  have tok: "access_token (config fresh_manager) = Some ''AT1''"
    by (simp add: fresh_manager_def held_config_def)
  show ?thesis
    using valid_token_no_io [OF h1 h2, where ?now2.0 = 1700000000001
        and env = "answers (NetworkError ''unused'')" and w = held_world
        and ?env2.0 = "answers (NetworkError ''unused'')"] h1 h2 h3
    unfolding tok by blast
qed

text \<open>
  Claim C1. When the held \<open>expires_at\<close> is at or before \<open>now\<close> plus five minutes,
  \<open>getValidAccessToken\<close> sends one request: a POST to \<open>/oauth2/token/\<close> of the held
  service URL with \<open>grant_type=refresh_token\<close>, the held refresh token and the client
  identity. When the endpoint answers with a 2xx status and a body that issues an access
  token with a lifetime, the call returns that token, and the record held and written to
  the file has as \<open>expires_at\<close> the JavaScript sum of \<open>now_after\<close>, the clock when the
  answer arrived, and the JavaScript product of the lifetime and 1000. As long as product
  and sum stay within \<open>2 ^ 53\<close> that is the integer \<open>now_after + secs * 1000\<close>. The
  witness is the scenario of the specification: a record expired one second ago and the
  answer \<open>{access_token: "AT2", expires_in: 3600}\<close>.
\<close>

theorem expired_token_refreshes:
  assumes "expires_at (config m) = Num e" and "e \<le> now + 300000"
  shows "posts (snd (snd (getValidAccessToken now env m w))) =
           posts w @
           [HttpPost (reviewboard_url (config m) @ ''/oauth2/token/'')
              [(''grant_type'', ''refresh_token''),
               (''refresh_token'', template (refresh_token (config m))),
               (''client_id'', client_id (config m)),
               (''client_secret'', client_secret (config m))]] \<and>
         (post_result env = Response status (Some td) \<and> 200 \<le> status \<and> status < 300 \<and>
          write_ok env \<and> td_access_token td = Some tok \<and> td_expires_in td = Some lifetime \<longrightarrow>
            fst (getValidAccessToken now env m w) = Inr (Some tok) \<and>
            access_token (config (fst (snd (getValidAccessToken now env m w)))) = Some tok \<and>
            expires_at (config (fst (snd (getValidAccessToken now env m w))))
              = js_add (Num (now_after env)) (js_mul lifetime (Num 1000)) \<and>
            (\<forall>secs. lifetime = Num secs \<and> \<bar>secs * 1000\<bar> \<le> 2 ^ 53 \<and>
                    \<bar>now_after env + secs * 1000\<bar> \<le> 2 ^ 53 \<longrightarrow>
               expires_at (config (fst (snd (getValidAccessToken now env m w))))
                 = Num (now_after env + secs * 1000)) \<and>
            disk (snd (snd (getValidAccessToken now env m w))) (configPath m)
              = Some (ConfigJson (config (fst (snd (getValidAccessToken now env m w))))))"
proof -
  have ex: "isExpired now m" using assms by (simp add: isExpired_iff)
  have P: "posts (snd (snd (getValidAccessToken now env m w))) =
           posts w @
           [HttpPost (reviewboard_url (config m) @ ''/oauth2/token/'')
              [(''grant_type'', ''refresh_token''),
               (''refresh_token'', template (refresh_token (config m))),
               (''client_id'', client_id (config m)),
               (''client_secret'', client_secret (config m))]]"
    using ex by (simp add: getValidAccessToken_posts refresh_request_def)
  have S: "fst (getValidAccessToken now env m w) = Inr (Some tok) \<and>
            access_token (config (fst (snd (getValidAccessToken now env m w)))) = Some tok \<and>
            expires_at (config (fst (snd (getValidAccessToken now env m w))))
              = js_add (Num (now_after env)) (js_mul lifetime (Num 1000)) \<and>
            disk (snd (snd (getValidAccessToken now env m w))) (configPath m)
              = Some (ConfigJson (config (fst (snd (getValidAccessToken now env m w)))))"
    if h: "post_result env = Response status (Some td)" "200 \<le> status" "status < 300"
      "write_ok env" and t: "td_access_token td = Some tok" "td_expires_in td = Some lifetime"
    using ex t
    by (simp add: getValidAccessToken_def refreshAccessToken_success [OF h]
        update_tokens_def to_number_def Let_def)
  have E: "js_add (Num (now_after env)) (js_mul (Num secs) (Num 1000))
      = Num (now_after env + secs * 1000)"
    if "\<bar>secs * 1000\<bar> \<le> 2 ^ 53" "\<bar>now_after env + secs * 1000\<bar> \<le> 2 ^ 53" for secs
    using that by (simp add: to_double_safe)
  show ?thesis using P S E by auto
qed

theorem expired_token_refreshes_witness:
  "expires_at (config held_manager) = Num (1700000000000 - 1000) \<and>
   posts (snd (snd (getValidAccessToken 1700000000000
          (answers (Response 200 (Some issued_AT2))) held_manager held_world)))
     = [HttpPost ''https://rb.example.com/oauth2/token/''
          [(''grant_type'', ''refresh_token''),
           (''refresh_token'', ''RT1''),
           (''client_id'', ''cid''),
           (''client_secret'', ''sec'')]] \<and>
   fst (getValidAccessToken 1700000000000 (answers (Response 200 (Some issued_AT2)))
          held_manager held_world) = Inr (Some ''AT2'') \<and>
   expires_at (config (fst (snd (getValidAccessToken 1700000000000
          (answers (Response 200 (Some issued_AT2))) held_manager held_world))))
     = Num (1700000000000 + 3600000) \<and>
   disk (snd (snd (getValidAccessToken 1700000000000
          (answers (Response 200 (Some issued_AT2))) held_manager held_world)))
      ''/srv/oauth-config.json''
     = Some (ConfigJson (config (fst (snd (getValidAccessToken 1700000000000
          (answers (Response 200 (Some issued_AT2))) held_manager held_world)))))"
proof -
  have h1: "expires_at (config held_manager) = Num 1699999999000"
    by (simp add: held_manager_def held_config_def)
  have h2: "(1699999999000::int) \<le> 1700000000000 + 300000" by simp
  have r: "post_result (answers (Response 200 (Some issued_AT2))) = Response 200 (Some issued_AT2)"
    "write_ok (answers (Response 200 (Some issued_AT2)))"
    "now_after (answers (Response 200 (Some issued_AT2))) = 1700000000000"
    by (simp_all add: answers_def)
  have t: "td_access_token issued_AT2 = Some ''AT2''" "td_expires_in issued_AT2 = Some (Num 3600)"
    by (simp_all add: issued_AT2_def)
  have c: "reviewboard_url (config held_manager) = ''https://rb.example.com''"
    "template (refresh_token (config held_manager)) = ''RT1''"
    "client_id (config held_manager) = ''cid''" "client_secret (config held_manager) = ''sec''"
    "configPath held_manager = ''/srv/oauth-config.json''"
    by (simp_all add: held_manager_def held_config_def template_def)
  have w0: "posts held_world = []" by (simp add: held_world_def posts_def)
  have s1: "\<bar>(3600::int) * 1000\<bar> \<le> 2 ^ 53" by simp
  have s2: "\<bar>(1700000000000::int) + 3600 * 1000\<bar> \<le> 2 ^ 53" by simp
  show ?thesis
    using expired_token_refreshes [OF h1 h2, where env = "answers (Response 200 (Some issued_AT2))"
        and status = 200 and td = issued_AT2 and tok = "''AT2''" and lifetime = "Num 3600"
        and w = held_world] h1 r t c w0 s1 s2
    by (simp add: to_double_safe)
qed

text \<open>
  A lifetime whose product with 1000 leaves the range of \<open>2 ^ 53\<close>: the stored
  \<open>expires_at\<close> is the rounded sum, here the even neighbour of 9008899254741001. A
  lifetime of 3599.5 seconds gives a whole \<open>expires_at\<close> again.
\<close>

lemma long_lifetime_is_rounded:
  "js_add (Num 1700000000001) (js_mul (Num 9007199254741) (Num 1000)) = Num 9008899254741000"
proof -
  have b: "bit_length 9007199254741000 = 54" "bit_length 9008899254741001 = 54"
    "bit_length 1 = 1"
    by code_simp+
  have f: "\<lfloor>9007199254741000 / (2::rat)\<rfloor> = 4503599627370500"
    "\<lfloor>9008899254741001 / (2::rat)\<rfloor> = 4504449627370500"
    by (rule floor_unique; simp)+
  have p: "to_double 9007199254741000 = Num 9007199254741000"
    by (simp add: to_double_def round_double_def floor_log2_def quotient_of_int pow2_def
        round_half_even_def whole_def Let_def b f)
  have q: "to_double 9008899254741001 = Num 9008899254741000"
    by (simp add: to_double_def round_double_def floor_log2_def quotient_of_int pow2_def
        round_half_even_def whole_def Let_def b f)
  show ?thesis by (simp add: p q)
qed

lemma fractional_lifetime:
  "js_add (Num 1700000000000) (js_mul (Frac (7199 / 2)) (Num 1000)) = Num 1700003599500"
proof -
  have "(7199 / 2 :: rat) * 1000 = of_int 3599500" by simp
  hence "js_mul (Frac (7199 / 2)) (Num 1000) = Num 3599500"
    by (simp add: round_double_def)
  thus ?thesis by simp
qed

lemma getValidAccessToken_rejected:
  assumes "isExpired now m"
    and "axios_post (post_result env) = Inl err \<or> axios_post (post_result env) = Inr None"
  shows "getValidAccessToken now env m w = (Inl refresh_failed, m, refresh_send m w)"
  using assms by (simp add: getValidAccessToken_def refreshAccessToken_rejected)

lemma isExpired_mono:
  "expires_at (config m) = Num e \<Longrightarrow> isExpired now m \<Longrightarrow> now \<le> now' \<Longrightarrow> isExpired now' m"
  by (simp add: isExpired_iff)

text \<open>
  Claim C3, as amended. When the refresh request fails to produce a response body, that
  is on a transport failure, on a status outside 200..299 or on a \<open>null\<close> body, the call
  throws the error whose message points to \<open>npm run oauth-setup\<close>, the manager holds the
  record it held before, the file is as it was and nothing but the request was done. A
  later call, at a clock that has not gone back, sends the refresh request again.
\<close>

theorem rejected_refresh_keeps_state:
  assumes "expires_at (config m) = Num e" and "e \<le> now + 300000"
    and "post_result env = NetworkError msg \<or>
         post_result env = Response status body \<and> (status < 200 \<or> 300 \<le> status \<or> body = None)"
    and "now \<le> later"
  shows "fst (getValidAccessToken now env m w) = Inl refresh_failed \<and>
         message refresh_failed =
           ''Failed to refresh access token. You may need to run the OAuth setup again: npm run oauth-setup'' \<and>
         fst (snd (getValidAccessToken now env m w)) = m \<and>
         disk (snd (snd (getValidAccessToken now env m w))) = disk w \<and>
         effects (snd (snd (getValidAccessToken now env m w))) = effects w @ [refresh_request m] \<and>
         posts (snd (snd (getValidAccessToken later env2
                  (fst (snd (getValidAccessToken now env m w)))
                  (snd (snd (getValidAccessToken now env m w))))))
           = posts w @ [refresh_request m, refresh_request m]"
proof -
  have ex: "isExpired now m" using assms(1,2) by (simp add: isExpired_iff)
  have ex2: "isExpired later m" using isExpired_mono [OF assms(1) ex assms(4)] .
  have "(\<exists>err. axios_post (post_result env) = Inl err) \<or> axios_post (post_result env) = Inr None"
    using assms(3) by auto
  then obtain err where
    "axios_post (post_result env) = Inl err \<or> axios_post (post_result env) = Inr None"
    by blast
  hence G: "getValidAccessToken now env m w = (Inl refresh_failed, m, refresh_send m w)"
    using ex by (rule getValidAccessToken_rejected [rotated])
  show ?thesis
    unfolding G using ex2
    by (simp add: getValidAccessToken_posts refresh_send_posts)
       (simp add: refresh_send_def refresh_failed_def)
qed

theorem rejected_refresh_keeps_state_witness:
  "expires_at (config held_manager) = Num 1699999999000 \<and>
   getValidAccessToken 1700000000000 (answers (Response 503 None)) held_manager held_world
     = (Inl refresh_failed, held_manager,
        held_world\<lparr>effects := [refresh_request held_manager]\<rparr>) \<and>
   posts (snd (snd (getValidAccessToken 1700000060000 (answers (NetworkError ''ECONNRESET''))
            (fst (snd (getValidAccessToken 1700000000000 (answers (Response 503 None))
                         held_manager held_world)))
            (snd (snd (getValidAccessToken 1700000000000 (answers (Response 503 None))
                         held_manager held_world))))))
     = [refresh_request held_manager, refresh_request held_manager]"
proof -
  have h1: "expires_at (config held_manager) = Num 1699999999000"
    by (simp add: held_manager_def held_config_def)
  have h2: "(1699999999000::int) \<le> 1700000000000 + 300000" by simp
  have h3: "post_result (answers (Response 503 None)) = NetworkError ''none'' \<or>
         post_result (answers (Response 503 None)) = Response 503 None \<and>
           ((503::nat) < 200 \<or> (300::nat) \<le> 503 \<or> (None :: token_data option) = None)"
    by (simp add: answers_def)
  have h4: "(1700000000000::int) \<le> 1700000060000" by simp
  have w0: "effects held_world = []" "posts held_world = []"
    by (simp_all add: held_world_def posts_def)
  show ?thesis
    using rejected_refresh_keeps_state [OF h1 h2 h3 h4,
        where w = held_world and ?env2.0 = "answers (NetworkError ''ECONNRESET'')"] h1 w0
    by (cases "getValidAccessToken 1700000000000 (answers (Response 503 None)) held_manager held_world")
       (auto simp: held_world_def)
qed

text \<open>
  Claim C3 as stated also covers a malformed response. A 200 answer whose body has none
  of the expected fields is not noticed: the call returns \<open>undefined\<close> instead of
  throwing, the held record loses its access token and gets \<open>NaN\<close> as \<open>expires_at\<close>,
  the file is overwritten, and the record never counts as expired again.
\<close>

theorem unvalidated_body_counterexample:
  "fst (getValidAccessToken 1700000000000 (answers (Response 200 (Some empty_body)))
          held_manager held_world) = Inr None \<and>
   access_token (config (fst (snd (getValidAccessToken 1700000000000
          (answers (Response 200 (Some empty_body))) held_manager held_world)))) = None \<and>
   expires_at (config (fst (snd (getValidAccessToken 1700000000000
          (answers (Response 200 (Some empty_body))) held_manager held_world)))) = NaN \<and>
   disk (snd (snd (getValidAccessToken 1700000000000
          (answers (Response 200 (Some empty_body))) held_manager held_world)))
        ''/srv/oauth-config.json''
     \<noteq> disk held_world ''/srv/oauth-config.json'' \<and>
   \<not> isExpired 1800000000000 (fst (snd (getValidAccessToken 1700000000000
          (answers (Response 200 (Some empty_body))) held_manager held_world)))"
  by (simp add: getValidAccessToken_def isExpired_def expiryBuffer_def refreshAccessToken_def
      refresh_settle_def refresh_send_def saveConfig_def update_tokens_def to_number_def truthy_def
      answers_def empty_body_def held_manager_def held_config_def held_world_def Let_def)

lemma refreshAccessToken_returns:
  assumes "refreshAccessToken env m w = (Inr u, m', w')"
  shows "\<exists>status td. post_result env = Response status (Some td) \<and> 200 \<le> status \<and> status < 300 \<and>
           write_ok env"
  using assms
  by (cases "post_result env")
     (auto simp: refreshAccessToken_def refresh_settle_def saveConfig_def Let_def
        split: sum.splits option.splits if_splits)

text \<open>
  Claim C6, as amended. After a refresh that succeeded on the response body \<open>td\<close>: a
  body without \<open>refresh_token\<close>, or with an empty one, leaves the held refresh token as
  it was; a non-empty \<open>refresh_token\<close> replaces it. \<open>token_type\<close>, \<open>client_id\<close>,
  \<open>client_secret\<close>, \<open>reviewboard_url\<close> and the path of the file do not change, and
  the file holds the record the manager holds.
\<close>

theorem refresh_token_rotation:
  assumes "refreshAccessToken env m w = (Inr u, m', w')"
    and "post_result env = Response status (Some td)"
  shows "(td_refresh_token td = None \<or> td_refresh_token td = Some [] \<longrightarrow>
            refresh_token (config m') = refresh_token (config m)) \<and>
         (\<forall>rt. td_refresh_token td = Some rt \<and> rt \<noteq> [] \<longrightarrow> refresh_token (config m') = Some rt) \<and>
         token_type (config m') = token_type (config m) \<and>
         client_id (config m') = client_id (config m) \<and>
         client_secret (config m') = client_secret (config m) \<and>
         reviewboard_url (config m') = reviewboard_url (config m) \<and>
         configPath m' = configPath m \<and>
         disk w' (configPath m) = Some (ConfigJson (config m'))"
proof -
  obtain st td' where r: "post_result env = Response st (Some td')" "200 \<le> st" "st < 300" "write_ok env"
    using refreshAccessToken_returns [OF assms(1)] by blast
  have eq: "td' = td" "st = status" using r(1) assms(2) by simp_all
  have "m' = m\<lparr>config := update_tokens td (now_after env) (config m)\<rparr>"
    and "disk w' = (disk w)(configPath m \<mapsto> ConfigJson (update_tokens td (now_after env) (config m)))"
    using assms(1) refreshAccessToken_success [OF r, of m w] unfolding eq by auto
  thus ?thesis
    by (auto simp: update_tokens_def truthy_def Let_def)
qed

theorem refresh_token_rotation_witness:
  "refreshAccessToken (answers (Response 200 (Some issued_AT2))) held_manager held_world
     = (Inr (), held_manager\<lparr>config := held_config\<lparr>access_token := Some ''AT2'',
                                   expires_at := Num 1700003600000\<rparr>\<rparr>,
        \<lparr>disk = [''/srv/oauth-config.json'' \<mapsto> ConfigJson (held_config\<lparr>access_token := Some ''AT2'',
                                   expires_at := Num 1700003600000\<rparr>)],
         effects = [refresh_request held_manager,
                    FileWrite ''/srv/oauth-config.json'' (held_config\<lparr>access_token := Some ''AT2'',
                                   expires_at := Num 1700003600000\<rparr>)]\<rparr>) \<and>
   td_refresh_token issued_AT2 = None \<and>
   refresh_token (config (held_manager\<lparr>config := held_config\<lparr>access_token := Some ''AT2'',
                                   expires_at := Num 1700003600000\<rparr>\<rparr>)) = Some ''RT1''"
proof -
  have run: "refreshAccessToken (answers (Response 200 (Some issued_AT2))) held_manager held_world
     = (Inr (), held_manager\<lparr>config := held_config\<lparr>access_token := Some ''AT2'',
                                   expires_at := Num 1700003600000\<rparr>\<rparr>,
        \<lparr>disk = [''/srv/oauth-config.json'' \<mapsto> ConfigJson (held_config\<lparr>access_token := Some ''AT2'',
                                   expires_at := Num 1700003600000\<rparr>)],
         effects = [refresh_request held_manager,
                    FileWrite ''/srv/oauth-config.json'' (held_config\<lparr>access_token := Some ''AT2'',
                                   expires_at := Num 1700003600000\<rparr>)]\<rparr>)"
    by (simp add: refreshAccessToken_def refresh_settle_def refresh_send_def saveConfig_def
        update_tokens_def to_number_def truthy_def answers_def issued_AT2_def held_manager_def
        held_world_def Let_def)
  have body: "post_result (answers (Response 200 (Some issued_AT2))) = Response 200 (Some issued_AT2)"
    by (simp add: answers_def)
  have none: "td_refresh_token issued_AT2 = None" by (simp add: issued_AT2_def)
  have old: "refresh_token (config held_manager) = Some ''RT1''"
    by (simp add: held_manager_def held_config_def)
  show ?thesis
    using refresh_token_rotation [OF run body] none old run by simp
qed

text \<open>
  Claim C6 as stated has every supplied \<open>refresh_token\<close> replace the held one. The code
  tests the field for truthiness, so a response that supplies the empty string keeps the
  old refresh token.
\<close>

theorem empty_refresh_token_counterexample:
  "td_refresh_token (issued_AT2\<lparr>td_refresh_token := Some ''''\<rparr>) = Some '''' \<and>
   fst (refreshAccessToken
          (answers (Response 200 (Some (issued_AT2\<lparr>td_refresh_token := Some ''''\<rparr>))))
          held_manager held_world) = Inr () \<and>
   refresh_token (config (fst (snd (refreshAccessToken
          (answers (Response 200 (Some (issued_AT2\<lparr>td_refresh_token := Some ''''\<rparr>))))
          held_manager held_world)))) = Some ''RT1''"
  by (simp add: refreshAccessToken_def refresh_settle_def refresh_send_def saveConfig_def
      update_tokens_def to_number_def truthy_def answers_def issued_AT2_def held_manager_def
      held_config_def held_world_def Let_def)

section \<open>Overlapping calls\<close>

text \<open>
  A call that runs alone through its three pieces is \<open>getValidAccessToken\<close>.
\<close>

lemma run_sequential:
  assumes "isExpired now (rt_manager rt)"
  shows "run [Invoke now, PostSettles (length (rt_tasks rt)) env, Resume (length (rt_tasks rt))] rt =
     (case getValidAccessToken now env (rt_manager rt) (rt_world rt) of
        (r, m', w') \<Rightarrow> \<lparr>rt_manager = m', rt_world = w', rt_tasks = rt_tasks rt @ [Returned r]\<rparr>)"
  using assms
  by (cases rt)
     (auto simp: run_def getValidAccessToken_def refreshAccessToken_def nth_append
        split: prod.splits sum.splits)

text \<open>
  Claim C2, as amended. The manager keeps no record of a refresh in progress. Whatever
  calls are suspended, a call sends a refresh request exactly when, at its own check, the
  held \<open>expires_at\<close> is at or before \<open>now\<close> plus five minutes; settling a request and
  resuming a call send none. In particular, a call that starts after a refresh has stored
  an \<open>expires_at\<close> more than five minutes ahead sends no request.
\<close>

theorem expired_call_sends_request:
  "posts (rt_world (occur (Invoke now) rt)) =
      (if isExpired now (rt_manager rt)
       then posts (rt_world rt) @
            [HttpPost (reviewboard_url (config (rt_manager rt)) @ ''/oauth2/token/'')
               [(''grant_type'', ''refresh_token''),
                (''refresh_token'', template (refresh_token (config (rt_manager rt)))),
                (''client_id'', client_id (config (rt_manager rt))),
                (''client_secret'', client_secret (config (rt_manager rt)))]]
       else posts (rt_world rt)) \<and>
   (\<forall>e. expires_at (config (rt_manager rt)) = Num e \<longrightarrow>
        isExpired now (rt_manager rt) = (e \<le> now + 300000)) \<and>
   (expires_at (config (rt_manager rt)) = NaN \<longrightarrow> \<not> isExpired now (rt_manager rt)) \<and>
   posts (rt_world (occur (PostSettles i env) rt)) = posts (rt_world rt) \<and>
   posts (rt_world (occur (Resume i) rt)) = posts (rt_world rt) \<and>
   (refresh_settle env (rt_manager rt) (rt_world rt) = (Inr u, m', w') \<and>
    expires_at (config m') = Num e' \<and> later + 300000 < e' \<longrightarrow>
      posts (rt_world (occur (Invoke later)
               (rt\<lparr>rt_manager := m', rt_world := w', rt_tasks := ts\<rparr>))) = posts (rt_world rt))"
proof -
  have a: "posts (rt_world (occur (Invoke now) rt)) =
      (if isExpired now (rt_manager rt)
       then posts (rt_world rt) @
            [HttpPost (reviewboard_url (config (rt_manager rt)) @ ''/oauth2/token/'')
               [(''grant_type'', ''refresh_token''),
                (''refresh_token'', template (refresh_token (config (rt_manager rt)))),
                (''client_id'', client_id (config (rt_manager rt))),
                (''client_secret'', client_secret (config (rt_manager rt)))]]
       else posts (rt_world rt))"
    by (simp add: refresh_send_posts refresh_request_def)
  have n: "\<not> isExpired now (rt_manager rt)" if "expires_at (config (rt_manager rt)) = NaN"
    using that by (simp add: isExpired_def)
  have b: "posts (rt_world (occur (PostSettles i env) rt)) = posts (rt_world rt)"
    using refresh_settle_posts [of env "rt_manager rt" "rt_world rt"]
    by (auto split: prod.splits)
  have c: "posts (rt_world (occur (Resume i) rt)) = posts (rt_world rt)"
    by (auto split: task.splits sum.splits)
  have d: "posts (rt_world (occur (Invoke later)
               (rt\<lparr>rt_manager := m', rt_world := w', rt_tasks := ts\<rparr>))) = posts (rt_world rt)"
    if "refresh_settle env (rt_manager rt) (rt_world rt) = (Inr u, m', w')"
      "expires_at (config m') = Num e'" "later + 300000 < e'"
    using that refresh_settle_posts [of env "rt_manager rt" "rt_world rt"]
    by (simp add: isExpired_iff)
  show ?thesis using a n b c d isExpired_iff [of "rt_manager rt" _ now] by blast
qed

theorem expired_call_sends_request_witness:
  "expires_at (config (rt_manager (run [Invoke 1700000000000] idle_runtime))) = Num 1699999999000 \<and>
   rt_tasks (run [Invoke 1700000000000] idle_runtime) = [AwaitingPost] \<and>
   posts (rt_world (occur (Invoke 1700000000001) (run [Invoke 1700000000000] idle_runtime)))
     = posts (rt_world (run [Invoke 1700000000000] idle_runtime)) @
       [HttpPost ''https://rb.example.com/oauth2/token/''
          [(''grant_type'', ''refresh_token''),
           (''refresh_token'', ''RT1''),
           (''client_id'', ''cid''),
           (''client_secret'', ''sec'')]] \<and>
   refresh_settle (answers (Response 200 (Some issued_AT2))) held_manager held_world
     = (Inr (), snd (refresh_settle (answers (Response 200 (Some issued_AT2))) held_manager held_world)) \<and>
   posts (rt_world (occur (Invoke 1700000000001)
            (idle_runtime\<lparr>rt_manager := fst (snd (refresh_settle (answers (Response 200 (Some issued_AT2))) held_manager held_world)),
                           rt_world := snd (snd (refresh_settle (answers (Response 200 (Some issued_AT2))) held_manager held_world)),
                           rt_tasks := [Returned (Inr (Some ''AT2''))]\<rparr>)))
     = posts (rt_world idle_runtime)"
proof -
  have mg: "rt_manager (run [Invoke 1700000000000] idle_runtime) = held_manager"
    by (simp add: run_def idle_runtime_def)
  have ea: "expires_at (config held_manager) = Num 1699999999000"
    by (simp add: held_manager_def held_config_def)
  have le: "(1699999999000::int) \<le> 1700000000001 + 300000" by simp
  have ts: "rt_tasks (run [Invoke 1700000000000] idle_runtime) = [AwaitingPost]"
    by (simp add: run_def idle_runtime_def isExpired_def expiryBuffer_def held_manager_def held_config_def)
  have c: "reviewboard_url (config held_manager) = ''https://rb.example.com''"
    "template (refresh_token (config held_manager)) = ''RT1''"
    "client_id (config held_manager) = ''cid''" "client_secret (config held_manager) = ''sec''"
    by (simp_all add: held_manager_def held_config_def template_def)
  have st: "refresh_settle (answers (Response 200 (Some issued_AT2))) (rt_manager idle_runtime) (rt_world idle_runtime)
     = (Inr (), fst (snd (refresh_settle (answers (Response 200 (Some issued_AT2))) held_manager held_world)),
         snd (snd (refresh_settle (answers (Response 200 (Some issued_AT2))) held_manager held_world)))"
    by (simp add: refresh_settle_def saveConfig_def answers_def Let_def idle_runtime_def)
  have e: "expires_at (config (fst (snd (refresh_settle (answers (Response 200 (Some issued_AT2))) held_manager held_world))))
      = Num 1700003600000"
    by (simp add: refresh_settle_def saveConfig_def answers_def Let_def update_tokens_def
        to_number_def issued_AT2_def)
  have lt: "(1700000000001::int) + 300000 < 1700003600000" by simp
  have idle: "rt_manager idle_runtime = held_manager" "rt_world idle_runtime = held_world"
    by (simp_all add: idle_runtime_def)
  have p1: "posts (rt_world (occur (Invoke 1700000000001) (run [Invoke 1700000000000] idle_runtime)))
     = posts (rt_world (run [Invoke 1700000000000] idle_runtime)) @
       [HttpPost ''https://rb.example.com/oauth2/token/''
          [(''grant_type'', ''refresh_token''),
           (''refresh_token'', ''RT1''),
           (''client_id'', ''cid''),
           (''client_secret'', ''sec'')]]"
  proof -
    have x: "isExpired 1700000000001 (rt_manager (run [Invoke 1700000000000] idle_runtime))"
      using expired_call_sends_request [where now = 1700000000001
          and rt = "run [Invoke 1700000000000] idle_runtime"] mg ea le
      by simp
    have "posts (rt_world (occur (Invoke 1700000000001) (run [Invoke 1700000000000] idle_runtime)))
       = posts (rt_world (run [Invoke 1700000000000] idle_runtime)) @
         [HttpPost (reviewboard_url (config (rt_manager (run [Invoke 1700000000000] idle_runtime)))
                      @ ''/oauth2/token/'')
            [(''grant_type'', ''refresh_token''),
             (''refresh_token'',
              template (refresh_token (config (rt_manager (run [Invoke 1700000000000] idle_runtime))))),
             (''client_id'', client_id (config (rt_manager (run [Invoke 1700000000000] idle_runtime)))),
             (''client_secret'',
              client_secret (config (rt_manager (run [Invoke 1700000000000] idle_runtime))))]]"
      using expired_call_sends_request [where now = 1700000000001
          and rt = "run [Invoke 1700000000000] idle_runtime"] x
      by presburger
    thus ?thesis unfolding mg c by simp
  qed
  have p2: "posts (rt_world (occur (Invoke 1700000000001)
            (idle_runtime\<lparr>rt_manager := fst (snd (refresh_settle (answers (Response 200 (Some issued_AT2))) held_manager held_world)),
                           rt_world := snd (snd (refresh_settle (answers (Response 200 (Some issued_AT2))) held_manager held_world)),
                           rt_tasks := [Returned (Inr (Some ''AT2''))]\<rparr>)))
     = posts (rt_world idle_runtime)"
    using expired_call_sends_request [where rt = idle_runtime
        and env = "answers (Response 200 (Some issued_AT2))" and u = "()"
        and m' = "fst (snd (refresh_settle (answers (Response 200 (Some issued_AT2))) held_manager held_world))"
        and w' = "snd (snd (refresh_settle (answers (Response 200 (Some issued_AT2))) held_manager held_world))"
        and e' = 1700003600000 and later = 1700000000001 and ts = "[Returned (Inr (Some ''AT2''))]"]
      st e lt
    by blast
  show ?thesis
    using p1 p2 mg ea ts st idle by simp
qed

text \<open>
  Claim C2 as stated: a second caller awaits the refresh in progress. Here the second
  call starts while the first is suspended at its POST, and a second request with the
  same refresh token goes out.
\<close>

theorem overlapping_calls_counterexample:
  "rt_tasks (run [Invoke 1700000000000] idle_runtime) = [AwaitingPost] \<and>
   rt_tasks (run [Invoke 1700000000000, Invoke 1700000000001] idle_runtime)
     = [AwaitingPost, AwaitingPost] \<and>
   posts (rt_world (run [Invoke 1700000000000, Invoke 1700000000001] idle_runtime))
     = [refresh_request held_manager, refresh_request held_manager] \<and>
   length (posts (rt_world (run [Invoke 1700000000000, Invoke 1700000000001,
                                 PostSettles 0 (answers (Response 200 (Some issued_AT2))),
                                 PostSettles 1 (answers (Response 200 (Some issued_AT2))),
                                 Resume 0, Resume 1] idle_runtime))) = 2"
  by (simp add: run_def idle_runtime_def isExpired_def expiryBuffer_def held_manager_def
      held_config_def held_world_def refresh_send_def refresh_settle_def saveConfig_def
      update_tokens_def to_number_def truthy_def answers_def issued_AT2_def posts_def is_post_def
      refresh_request_def Let_def)

section \<open>Properties of the callback listener and the setup flow\<close>












lemma deliver_emits:
  "set (emitted (deliver r l)) \<subseteq> set (emitted l) \<union> {CloseServer} \<union> {ev. \<exists>s h. ev = Reply s h}"
  by (auto simp: deliver_def on_request_def settle_def close_server_def reply_def)

lemma serve_emits:
  "set (emitted (serve rs l)) \<subseteq> set (emitted l) \<union> {CloseServer} \<union> {ev. \<exists>s h. ev = Reply s h}"
proof (induction rs arbitrary: l)
  case Nil
  show ?case by auto
next
  case (Cons r rs)
  show ?case
    using Cons [of "deliver r l"] deliver_emits [of r l] by auto
qed

lemma callback_listener_emits:
  "set (emitted (callback_listener e)) \<subseteq>
     {Listen (callbackPort e), CloseServer} \<union> {ev. \<exists>s h. ev = Reply s h}"
  using serve_emits [of "incoming e" "startCallbackServer (callbackPort e) (port_free e)"]
  by (auto simp: callback_listener_def startCallbackServer_def split: if_splits)

text \<open>
  Claim C5. When the callback resolves with a \<open>state\<close> that is not the one generated at
  the start of the run, \<open>main\<close> sends no token request and writes no file; once it has
  got as far as the callback, it reports the state mismatch and exits with status 1.
\<close>

theorem state_mismatch_aborts:
  assumes "promise (callback_listener e) = Some (Resolved code returnedState)"
    and "returnedState \<noteq> QStr (fresh_state e)"
  shows "(\<forall>url body. TokenPost url body \<notin> set (snd (main e))) \<and>
         (\<forall>cfg. WriteConfig cfg \<notin> set (snd (main e))) \<and>
         (truthy (env_vars e ''REVIEWBOARD_URL'') \<and> truthy (env_vars e ''REVIEWBOARD_CLIENT_ID'') \<and>
          truthy (env_vars e ''REVIEWBOARD_CLIENT_SECRET'') \<and> url_parses e \<longrightarrow>
            fst (main e) = Exited 1 \<and>
            ReportFailure ''State mismatch - possible CSRF attack'' \<in> set (snd (main e)))"
proof -
  have neq: "QStr (fresh_state e) \<noteq> returnedState" using assms(2) by auto
  have L: "TokenPost url body \<notin> set (emitted (callback_listener e))"
      "WriteConfig cfg \<notin> set (emitted (callback_listener e))" for url body cfg
    using callback_listener_emits [of e] by auto
  show ?thesis
    using assms(1) neq L
    by (auto simp: main_def failed_def Let_def)
qed

theorem state_mismatch_aborts_witness:
  "promise (callback_listener (setup_run\<lparr>fresh_state := ''77e1''\<rparr>))
     = Some (Resolved (QStr ''c0de'') (QStr ''5f2a'')) \<and>
   QStr ''5f2a'' \<noteq> QStr (fresh_state (setup_run\<lparr>fresh_state := ''77e1''\<rparr>)) \<and>
   fst (main (setup_run\<lparr>fresh_state := ''77e1''\<rparr>)) = Exited 1 \<and>
   ReportFailure ''State mismatch - possible CSRF attack''
     \<in> set (snd (main (setup_run\<lparr>fresh_state := ''77e1''\<rparr>))) \<and>
   TokenPost ''https://rb.example.com/oauth2/token/'' []
     \<notin> set (snd (main (setup_run\<lparr>fresh_state := ''77e1''\<rparr>)))"
proof -
  have p: "promise (callback_listener (setup_run\<lparr>fresh_state := ''77e1''\<rparr>))
     = Some (Resolved (QStr ''c0de'') (QStr ''5f2a''))"
    by (simp add: callback_listener_def setup_run_def startCallbackServer_def on_request_def deliver_def
        favicon_def granted_def settle_def close_server_def reply_def)
  have n: "QStr ''5f2a'' \<noteq> QStr (fresh_state (setup_run\<lparr>fresh_state := ''77e1''\<rparr>))"
    by simp
  have v: "truthy (env_vars (setup_run\<lparr>fresh_state := ''77e1''\<rparr>) ''REVIEWBOARD_URL'')"
    "truthy (env_vars (setup_run\<lparr>fresh_state := ''77e1''\<rparr>) ''REVIEWBOARD_CLIENT_ID'')"
    "truthy (env_vars (setup_run\<lparr>fresh_state := ''77e1''\<rparr>) ''REVIEWBOARD_CLIENT_SECRET'')"
    "url_parses (setup_run\<lparr>fresh_state := ''77e1''\<rparr>)"
    by (simp_all add: setup_run_def truthy_def)
  show ?thesis
    using state_mismatch_aborts [OF p n] p n v by blast
qed

text \<open>
  Claim C7 says that the listener is started before the URL is shown. \<open>main\<close> prints
  the URL first and calls \<open>startCallbackServer\<close> afterwards. With the port taken by
  another process, the user has been shown the URL although the listener never accepts a
  connection; in the run that succeeds the order is the same.
\<close>

theorem url_shown_before_listening:
  "take 2 (snd (main setup_run)) =
     [PresentUrl ''https://rb.example.com/oauth2/authorize/''
         [(''client_id'', ''cid''),
          (''redirect_uri'', ''http://localhost:3000/callback''),
          (''response_type'', ''code''),
          (''state'', ''5f2a''),
          (''scope'', ''read write'')],
      Listen (Num 3000)] \<and>
   main (setup_run\<lparr>port_free := False\<rparr>) =
     (Exited 1,
      [PresentUrl ''https://rb.example.com/oauth2/authorize/''
         [(''client_id'', ''cid''),
          (''redirect_uri'', ''http://localhost:3000/callback''),
          (''response_type'', ''code''),
          (''state'', ''5f2a''),
          (''scope'', ''read write'')],
       Listen (Num 3000),
       ReportFailure ''listen EADDRINUSE: address already in use'',
       Exit 1])"
  by (simp add: main_def setup_run_def truthy_def template_def callbackPort_def
      callback_listener_def startCallbackServer_def parseInt_def is_space_def is_digit_def
      digit_value_def digits_value_def show_num_def show_int_def show_nat.simps digit_char_def
      failed_def Let_def favicon_def granted_def on_request_def deliver_def settle_def close_server_def
      reply_def exchangeCodeForToken_def finish_def issued_AT2_def to_number_def)

theorem url_shown_before_listening_witness:
  "fst (main (setup_run\<lparr>port_free := False\<rparr>)) = Exited 1 \<and>
   snd (main (setup_run\<lparr>port_free := False\<rparr>)) ! 1 = Listen (Num 3000) \<and>
   length (snd (main (setup_run\<lparr>port_free := False\<rparr>))) = 4 \<and>
   length (take 2 (snd (main setup_run))) = 2"
  using url_shown_before_listening by simp

section \<open>Properties of the client construction\<close>

lemma static_client_headers:
  assumes "new_ReviewBoardClient (BaseUrl u) (Some t) = Inr c"
  shows "tokenManager c = None"
    and "map_of (default_headers (client c)) ''Authorization'' = Some (''token '' @ t)"
    and "request_headers now renv c wx = (Inr (default_headers (client c)), c, wx)"
  using assms
  by (auto simp: new_ReviewBoardClient_def request_headers_def template_def split: if_splits)

lemma oauth_client_headers:
  assumes "new_ReviewBoardClient (TokenManager m) None = Inr c"
  shows "tokenManager c = Some m"
    and "map_of (default_headers (client c)) ''Authorization'' = None"
    and "request_interceptor (client c)"
  using assms by (auto simp: new_ReviewBoardClient_def)

lemma bearer_header:
  assumes "request_interceptor (client c)" and "tokenManager c \<noteq> None"
    and "request_headers now renv c wx = (Inr hs, c', wx')"
  shows "(\<exists>tok. map_of hs ''Authorization'' = Some (''Bearer '' @ template tok)) \<and>
         client c' = client c \<and> tokenManager c' \<noteq> None"
  using assms
  by (auto simp: request_headers_def update_conv' split: option.splits prod.splits sum.splits)

text \<open>
  Claim C9, as amended. With \<open>REVIEWBOARD_TOKEN\<close> and \<open>REVIEWBOARD_URL\<close> both set to
  non-empty strings, the first \<open>getClient\<close> builds the client with the default header
  \<open>Authorization: token <value>\<close>, touches neither the file nor anything else, and
  every request of that client leaves with the default headers. With one of the two
  absent or empty, a client is only obtained by reading the credential file; it has no
  default \<open>Authorization\<close> header, every request that leaves carries
  \<open>Authorization: Bearer <token>\<close>, and the client keeps its interceptor and manager.
\<close>

theorem auth_mode_by_environment:
  "(env ''REVIEWBOARD_TOKEN'' = Some t \<and> t \<noteq> [] \<and> env ''REVIEWBOARD_URL'' = Some u \<and> u \<noteq> [] \<longrightarrow>
      (\<exists>c. getClient env path None w = (Inr c, Some c, w) \<and>
           tokenManager c = None \<and>
           map_of (default_headers (client c)) ''Authorization'' = Some (''token '' @ t) \<and>
           (\<forall>now renv wx. request_headers now renv c wx = (Inr (default_headers (client c)), c, wx))))
   \<and>
   (env ''REVIEWBOARD_TOKEN'' = None \<or> env ''REVIEWBOARD_TOKEN'' = Some [] \<or>
    env ''REVIEWBOARD_URL'' = None \<or> env ''REVIEWBOARD_URL'' = Some [] \<longrightarrow>
      (\<forall>c rb' w'. getClient env path None w = (Inr c, rb', w') \<longrightarrow>
         effects w' = effects w @ [FileRead path] \<and>
         tokenManager c \<noteq> None \<and>
         map_of (default_headers (client c)) ''Authorization'' = None \<and>
         (\<forall>now renv wx hs c' wx'. request_headers now renv c wx = (Inr hs, c', wx') \<longrightarrow>
            (\<exists>tok. map_of hs ''Authorization'' = Some (''Bearer '' @ template tok)) \<and>
            client c' = client c \<and> tokenManager c' \<noteq> None)))"
proof -
  have A: "\<exists>c. getClient env path None w = (Inr c, Some c, w) \<and>
           tokenManager c = None \<and>
           map_of (default_headers (client c)) ''Authorization'' = Some (''token '' @ t) \<and>
           (\<forall>now renv wx. request_headers now renv c wx = (Inr (default_headers (client c)), c, wx))"
    if h: "env ''REVIEWBOARD_TOKEN'' = Some t \<and> t \<noteq> [] \<and> env ''REVIEWBOARD_URL'' = Some u \<and> u \<noteq> []"
  proof -
    obtain c where c: "new_ReviewBoardClient (BaseUrl u) (Some t) = Inr c"
      using h by (auto simp: new_ReviewBoardClient_def truthy_def)
    have "getClient env path None w = (Inr c, Some c, w)"
      using h c by (simp add: getClient_def truthy_def template_def)
    thus ?thesis using static_client_headers [OF c] by blast
  qed
  have B: "effects w' = effects w @ [FileRead path] \<and>
         tokenManager c \<noteq> None \<and>
         map_of (default_headers (client c)) ''Authorization'' = None \<and>
         (\<forall>now renv wx hs c' wx'. request_headers now renv c wx = (Inr hs, c', wx') \<longrightarrow>
            (\<exists>tok. map_of hs ''Authorization'' = Some (''Bearer '' @ template tok)) \<and>
            client c' = client c \<and> tokenManager c' \<noteq> None)"
    if h: "env ''REVIEWBOARD_TOKEN'' = None \<or> env ''REVIEWBOARD_TOKEN'' = Some [] \<or>
        env ''REVIEWBOARD_URL'' = None \<or> env ''REVIEWBOARD_URL'' = Some []"
      and g: "getClient env path None w = (Inr c, rb', w')" for c rb' w'
  proof -
    have nt: "\<not> (truthy (env ''REVIEWBOARD_TOKEN'') \<and> truthy (env ''REVIEWBOARD_URL''))"
      using h by (auto simp: truthy_def)
    obtain m where m: "OAuth2TokenManager path w = (Inr m, w')"
        and c: "new_ReviewBoardClient (TokenManager m) None = Inr c"
      using g nt
      by (auto simp: getClient_def Let_def split: prod.splits sum.splits)
    have e: "effects w' = effects w @ [FileRead path]"
      using m by (auto simp: OAuth2TokenManager_def loadConfig_def Let_def
          split: option.splits file_content.splits prod.splits sum.splits)
    note o = oauth_client_headers [OF c]
    have b: "\<forall>now renv wx hs c' wx'. request_headers now renv c wx = (Inr hs, c', wx') \<longrightarrow>
              (\<exists>tok. map_of hs ''Authorization'' = Some (''Bearer '' @ template tok)) \<and>
              client c' = client c \<and> tokenManager c' \<noteq> None"
      using bearer_header [of c] o by blast
    show ?thesis using e o b by simp
  qed
  show ?thesis using A B by blast
qed

theorem auth_mode_by_environment_witness:
  "static_env ''REVIEWBOARD_TOKEN'' = Some ''s3cret'' \<and>
   static_env ''REVIEWBOARD_URL'' = Some ''https://rb.example.com/'' \<and>
   fst (getClient static_env ''/srv/oauth-config.json'' None held_world)
     = new_ReviewBoardClient (BaseUrl ''https://rb.example.com/'') (Some ''s3cret'') \<and>
   snd (snd (getClient static_env ''/srv/oauth-config.json'' None held_world)) = held_world \<and>
   (Map.empty :: string \<rightharpoonup> string) ''REVIEWBOARD_TOKEN'' = None \<and>
   fst (getClient Map.empty ''/srv/oauth-config.json'' None held_world)
     = new_ReviewBoardClient (TokenManager held_manager) None \<and>
   effects (snd (snd (getClient Map.empty ''/srv/oauth-config.json'' None held_world)))
     = [FileRead ''/srv/oauth-config.json'']"
proof -
  have s: "static_env ''REVIEWBOARD_TOKEN'' = Some ''s3cret'' \<and> ''s3cret'' \<noteq> [] \<and>
      static_env ''REVIEWBOARD_URL'' = Some ''https://rb.example.com/'' \<and>
      ''https://rb.example.com/'' \<noteq> []"
    by (simp add: static_env_def)
  have o: "getClient Map.empty ''/srv/oauth-config.json'' None held_world
      = (new_ReviewBoardClient (TokenManager held_manager) None,
         Some \<lparr>client = \<lparr>baseURL = ''https://rb.example.com/api'',
                           default_headers = [(''Accept'', ''application/json'')],
                           request_interceptor = True\<rparr>,
                baseUrl = ''https://rb.example.com'',
                tokenManager = Some held_manager,
                apiToken = None\<rparr>,
         held_world\<lparr>effects := [FileRead ''/srv/oauth-config.json'']\<rparr>)"
    by (simp add: getClient_def truthy_def OAuth2TokenManager_def loadConfig_def held_world_def
        json_reparse_def held_config_def held_manager_def new_ReviewBoardClient_def
        strip_trailing_slash_def Let_def)
  have c: "new_ReviewBoardClient (TokenManager held_manager) None
      = Inr \<lparr>client = \<lparr>baseURL = ''https://rb.example.com/api'',
                           default_headers = [(''Accept'', ''application/json'')],
                           request_interceptor = True\<rparr>,
                baseUrl = ''https://rb.example.com'',
                tokenManager = Some held_manager,
                apiToken = None\<rparr>"
    by (simp add: new_ReviewBoardClient_def held_manager_def held_config_def strip_trailing_slash_def)
  have w0: "effects held_world = []" by (simp add: held_world_def)
  have st: "fst (getClient static_env ''/srv/oauth-config.json'' None held_world)
     = new_ReviewBoardClient (BaseUrl ''https://rb.example.com/'') (Some ''s3cret'')"
    by (simp add: getClient_def static_env_def truthy_def template_def new_ReviewBoardClient_def
        Let_def)
  have g: "getClient Map.empty ''/srv/oauth-config.json'' None held_world
      = (Inr \<lparr>client = \<lparr>baseURL = ''https://rb.example.com/api'',
                           default_headers = [(''Accept'', ''application/json'')],
                           request_interceptor = True\<rparr>,
                baseUrl = ''https://rb.example.com'',
                tokenManager = Some held_manager,
                apiToken = None\<rparr>,
         Some \<lparr>client = \<lparr>baseURL = ''https://rb.example.com/api'',
                           default_headers = [(''Accept'', ''application/json'')],
                           request_interceptor = True\<rparr>,
                baseUrl = ''https://rb.example.com'',
                tokenManager = Some held_manager,
                apiToken = None\<rparr>,
         held_world\<lparr>effects := [FileRead ''/srv/oauth-config.json'']\<rparr>)"
    unfolding o c ..
  have none: "(Map.empty :: string \<rightharpoonup> string) ''REVIEWBOARD_TOKEN'' = None" by simp
  have p1: "\<exists>c. getClient static_env ''/srv/oauth-config.json'' None held_world
      = (Inr c, Some c, held_world)"
    using auth_mode_by_environment [where env = static_env and t = "''s3cret''"
        and u = "''https://rb.example.com/''" and path = "''/srv/oauth-config.json''"
        and w = held_world] s
    by blast
  have p2: "effects (held_world\<lparr>effects := [FileRead ''/srv/oauth-config.json'']\<rparr>)
      = effects held_world @ [FileRead ''/srv/oauth-config.json'']"
    using auth_mode_by_environment [where env = Map.empty and path = "''/srv/oauth-config.json''"
        and w = held_world] none g
    by blast
  have w1: "snd (snd (getClient static_env ''/srv/oauth-config.json'' None held_world)) = held_world"
    using p1 by auto
  have w2: "effects (snd (snd (getClient Map.empty ''/srv/oauth-config.json'' None held_world)))
     = [FileRead ''/srv/oauth-config.json'']"
    using p2 w0 by (simp add: o)
  have w3: "fst (getClient Map.empty ''/srv/oauth-config.json'' None held_world)
     = new_ReviewBoardClient (TokenManager held_manager) None"
    by (simp add: o)
  show ?thesis
    using s st w1 w2 w3 by simp
qed

text \<open>
  Claim C9 as stated takes two variables that are set to select the static mode. The code
  tests them for truthiness: with \<open>REVIEWBOARD_TOKEN\<close> set to the empty string the
  credential file is read and the client is the OAuth2 one.
\<close>

theorem empty_token_variable_counterexample:
  "empty_token_env ''REVIEWBOARD_TOKEN'' = Some [] \<and>
   empty_token_env ''REVIEWBOARD_URL'' = Some ''https://rb.example.com/'' \<and>
   fst (getClient empty_token_env ''/srv/oauth-config.json'' None held_world)
     = new_ReviewBoardClient (TokenManager held_manager) None \<and>
   effects (snd (snd (getClient empty_token_env ''/srv/oauth-config.json'' None held_world)))
     = [FileRead ''/srv/oauth-config.json'']"
  by (simp add: getClient_def empty_token_env_def truthy_def OAuth2TokenManager_def loadConfig_def
      held_world_def json_reparse_def held_config_def held_manager_def new_ReviewBoardClient_def
      strip_trailing_slash_def Let_def)

section \<open>Properties of the Jira instance registry\<close>

text \<open>
  Claim C8. The name is looked up in its lower-case form. When that form is not a key of
  the registry, \<open>getClient\<close> throws the error whose message gives the name as it was
  requested and then the registered names, in their order, separated by a comma and a
  space, and leaves the registry and the clients as they were. When that form is a key,
  a client is returned. The witness is the request for \<open>foo\<close> against \<open>amd\<close> and
  \<open>ontrack\<close>, and the request for \<open>AMD\<close>, which finds \<open>amd\<close>.
\<close>

theorem unknown_instance_rejected:
  "(toLowerCase inst \<notin> set (map fst (instances jc)) \<longrightarrow>
      jira_getClient toLowerCase inst jc =
        (Inl (Error (''Unknown Jira instance: '' @ inst @ ''. Available instances: '' @
                     join '', '' (map fst (instances jc)))), jc)) \<and>
   (toLowerCase inst \<in> set (map fst (instances jc)) \<longrightarrow>
      (\<exists>c. fst (jira_getClient toLowerCase inst jc) = Inr c) \<and>
      instances (snd (jira_getClient toLowerCase inst jc)) = instances jc)"
proof -
  have a: "jira_getClient toLowerCase inst jc =
        (Inl (Error (''Unknown Jira instance: '' @ inst @ ''. Available instances: '' @
                     join '', '' (map fst (instances jc)))), jc)"
    if "toLowerCase inst \<notin> set (map fst (instances jc))"
    using that
    by (simp add: jira_getClient_def map_of_eq_None_iff [symmetric] del: map_of_eq_None_iff)
  have b: "(\<exists>c. fst (jira_getClient toLowerCase inst jc) = Inr c) \<and>
      instances (snd (jira_getClient toLowerCase inst jc)) = instances jc"
    if "toLowerCase inst \<in> set (map fst (instances jc))"
  proof -
    have "map_of (instances jc) (toLowerCase inst) \<noteq> None"
      using that by (simp add: map_of_eq_None_iff)
    then obtain cfg where "map_of (instances jc) (toLowerCase inst) = Some cfg"
      by blast
    thus ?thesis
      by (simp add: jira_getClient_def Let_def split: option.splits)
  qed
  show ?thesis using a b by blast
qed

theorem unknown_instance_rejected_witness:
  "ascii_lower ''foo'' \<notin> set (map fst (instances two_instances)) \<and>
   map fst (instances two_instances) = [''amd'', ''ontrack''] \<and>
   jira_getClient ascii_lower ''foo'' two_instances =
     (Inl (Error ''Unknown Jira instance: foo. Available instances: amd, ontrack''), two_instances) \<and>
   ascii_lower ''AMD'' = ''amd'' \<and>
   fst (jira_getClient ascii_lower ''AMD'' two_instances) =
     Inr \<lparr>jira_baseURL = ''https://jira.amd.example/rest/api/2'',
          auth_username = ''a@example.com'', auth_password = ''t1''\<rparr> \<and>
   instances (snd (jira_getClient ascii_lower ''AMD'' two_instances)) = instances two_instances"
proof -
  have h: "ascii_lower ''foo'' \<notin> set (map fst (instances two_instances))"
    by (simp add: ascii_lower_def two_instances_def)
  have k: "map fst (instances two_instances) = [''amd'', ''ontrack'']"
    by (simp add: two_instances_def)
  have u: "ascii_lower ''AMD'' = ''amd''"
    by (simp add: ascii_lower_def)
  have g: "ascii_lower ''AMD'' \<in> set (map fst (instances two_instances))"
    by (simp add: u k)
  have c: "fst (jira_getClient ascii_lower ''AMD'' two_instances) =
     Inr \<lparr>jira_baseURL = ''https://jira.amd.example/rest/api/2'',
          auth_username = ''a@example.com'', auth_password = ''t1''\<rparr>"
    by (simp add: jira_getClient_def u two_instances_def create_client_def
        strip_trailing_slash_def Let_def)
  show ?thesis
    using unknown_instance_rejected [where toLowerCase = ascii_lower and inst = "''foo''"
        and jc = two_instances]
      unknown_instance_rejected [where toLowerCase = ascii_lower and inst = "''AMD''"
        and jc = two_instances] h k u g c
    by simp
qed

end
